theory Spec2Isabelle
  imports Complex_Main "HOL-Library.Sublist" "HOL-Library.AList"
begin

section \<open>Exceptions and effectful code\<close>

text \<open>
  The launcher (\<^verbatim>\<open>launcher.py\<close>) is a console program that calls three collaborators:
  the configuration provider, the telemetry database and the traffic (training) engine.
  Every call of the source that can raise is a computation returning either the raised
  exception (\<open>Inl\<close>) or a value (\<open>Inr\<close>), together with the new state.

  Python exceptions: \<open>Exception cls msg\<close> stands for an instance of a class derived from
  \<^verbatim>\<open>Exception\<close> (\<open>cls\<close> names the class, \<open>msg\<close> is \<^verbatim>\<open>str(e)\<close>);
  \<^verbatim>\<open>KeyboardInterrupt\<close> and \<^verbatim>\<open>SystemExit\<close> derive from \<^verbatim>\<open>BaseException\<close> only, so
  \<^verbatim>\<open>except Exception\<close> does not catch them.
\<close>

datatype exn =
    Exception (cls: string) (msg: string)
  | KeyboardInterrupt
  | SystemExit int

fun is_Exception :: "exn \<Rightarrow> bool" where
  "is_Exception (Exception c m) = True"
| "is_Exception KeyboardInterrupt = False"
| "is_Exception (SystemExit n) = False"

fun is_KeyboardInterrupt :: "exn \<Rightarrow> bool" where
  "is_KeyboardInterrupt KeyboardInterrupt = True"
| "is_KeyboardInterrupt (Exception c m) = False"
| "is_KeyboardInterrupt (SystemExit n) = False"

text \<open>\<^verbatim>\<open>except (ValueError, IndexError)\<close>\<close>

fun is_ValueError_or_IndexError :: "exn \<Rightarrow> bool" where
  "is_ValueError_or_IndexError (Exception c m) = (c = ''ValueError'' \<or> c = ''IndexError'')"
| "is_ValueError_or_IndexError KeyboardInterrupt = False"
| "is_ValueError_or_IndexError (SystemExit n) = False"

text \<open>\<^verbatim>\<open>f"{e}"\<close> for a caught exception.\<close>

fun str_exn :: "exn \<Rightarrow> string" where
  "str_exn (Exception c m) = m"
| "str_exn KeyboardInterrupt = []"
| "str_exn (SystemExit n) = []"

type_synonym ('w, 'a) prog = "'w \<Rightarrow> (exn + 'a) \<times> 'w"

definition ret :: "'a \<Rightarrow> ('w, 'a) prog" where
  "ret x w = (Inr x, w)"

definition throw :: "exn \<Rightarrow> ('w, 'a) prog" where
  "throw e w = (Inl e, w)"

text \<open>Sequencing: a raised exception skips the rest.\<close>

definition seq :: "('w, 'a) prog \<Rightarrow> ('a \<Rightarrow> ('w, 'b) prog) \<Rightarrow> ('w, 'b) prog" where
  "seq m f w = (case m w of (Inl e, w') \<Rightarrow> (Inl e, w') | (Inr x, w') \<Rightarrow> f x w')"

text \<open>
  \<^verbatim>\<open>try: m  except <catches> as e: h(e)\<close>. An exception raised by the handler itself is
  not caught by the same statement.
\<close>

definition try_except :: "('w, 'a) prog \<Rightarrow> (exn \<Rightarrow> bool) \<Rightarrow> (exn \<Rightarrow> ('w, 'a) prog) \<Rightarrow> ('w, 'a) prog" where
  "try_except m catches h w =
     (case m w of
        (Inl e, w') \<Rightarrow> if catches e then h e w' else (Inl e, w')
      | (Inr x, w') \<Rightarrow> (Inr x, w'))"

text \<open>
  \<^verbatim>\<open>try: m  finally: fin\<close>. The final block always runs; when it raises, its exception
  replaces the outcome of the body, otherwise the outcome of the body stands.
\<close>

definition try_finally :: "('w, 'a) prog \<Rightarrow> ('w, unit) prog \<Rightarrow> ('w, 'a) prog" where
  "try_finally m fin w =
     (case m w of (r, w') \<Rightarrow>
        (case fin w' of
           (Inl e, w'') \<Rightarrow> (Inl e, w'')
         | (Inr u, w'') \<Rightarrow> (r, w'')))"

section \<open>The configuration object\<close>

text \<open>
  The nested configuration object of the configuration provider. Python does not type
  the fields; \<open>'v\<close> is the type of the scalar values they hold.
\<close>

record 'v training_config =
  target_efficiency :: 'v
  target_mobility :: 'v
  max_episodes :: 'v

record 'v agent_config =
  learning_rate :: 'v

record 'v environment_config =
  num_vehicles :: 'v

record 'v web_config =
  enabled :: 'v
  host :: 'v
  port :: 'v

record 'v config =
  training :: "'v training_config"
  agent :: "'v agent_config"
  environment :: "'v environment_config"
  web :: "'v web_config"

text \<open>A Python dict with string keys, in insertion order.\<close>

type_synonym 'v dict = "(string \<times> 'v) list"

section \<open>Session identifiers\<close>

text \<open>
  \<^verbatim>\<open>datetime.now()\<close> returns a naive local date and time;
  \<^verbatim>\<open>strftime('%Y%m%d_%H%M%S')\<close> prints it zero-padded, the year on four digits.
\<close>

record datetime =
  year :: nat
  month :: nat
  day :: nat
  hour :: nat
  minute :: nat
  second :: nat
  microsecond :: nat

definition valid_datetime :: "datetime \<Rightarrow> bool" where
  "valid_datetime d =
     (1000 \<le> year d \<and> year d \<le> 9999 \<and> 1 \<le> month d \<and> month d \<le> 12 \<and>
      1 \<le> day d \<and> day d \<le> 31 \<and> hour d < 24 \<and> minute d < 60 \<and> second d < 60 \<and>
      microsecond d < 1000000)"

definition digit :: "nat \<Rightarrow> char" where
  "digit n = char_of (48 + n mod 10)"

definition pad2 :: "nat \<Rightarrow> string" where
  "pad2 n = [digit (n div 10), digit n]"

definition pad4 :: "nat \<Rightarrow> string" where
  "pad4 n = [digit (n div 1000), digit (n div 100), digit (n div 10), digit n]"

definition strftime_Ymd_HMS :: "datetime \<Rightarrow> string" where
  "strftime_Ymd_HMS d =
     pad4 (year d) @ pad2 (month d) @ pad2 (day d) @ ''_'' @
     pad2 (hour d) @ pad2 (minute d) @ pad2 (second d)"

text \<open>\<^verbatim>\<open>f"train_{datetime.now().strftime('%Y%m%d_%H%M%S')}"\<close>\<close>

definition train_session_id :: "datetime \<Rightarrow> string" where
  "train_session_id d = ''train_'' @ strftime_Ymd_HMS d"

text \<open>The wall-clock second of a reading: everything but the microseconds.\<close>

definition wall_clock_second :: "datetime \<Rightarrow> nat \<times> nat \<times> nat \<times> nat \<times> nat \<times> nat" where
  "wall_clock_second d = (year d, month d, day d, hour d, minute d, second d)"

section \<open>The launcher's state and its environment\<close>

text \<open>Console lines, named after the \<^verbatim>\<open>print\<close> statement that writes them.\<close>

datatype line =
    InterruptReceived                 \<comment> \<open>\<^verbatim>\<open>_signal_handler\<close>, line 97\<close>
  | MenuBanner                        \<comment> \<open>lines 104 to 116, as one\<close>
  | InvalidChoice                     \<comment> \<open>line 141\<close>
  | Newline                           \<comment> \<open>line 144\<close>
  | OperationError string             \<comment> \<open>line 148, with \<^verbatim>\<open>{e}\<close>\<close>
  | TrainingHeader                    \<comment> \<open>line 152\<close>
  | TrafficSystemMissing              \<comment> \<open>line 155\<close>
  | UsingConfigFile                   \<comment> \<open>line 165, without the file name\<close>
  | TrainingSessionId string          \<comment> \<open>lines 188 and 194, with the session id\<close>
  | NoTrafficSystemClass              \<comment> \<open>line 197\<close>
  | TrainingStartFailed string        \<comment> \<open>line 201, with \<^verbatim>\<open>{e}\<close>\<close>
  | DeploymentHeader                  \<comment> \<open>line 212\<close>
  | TrafficSystemUnavailable          \<comment> \<open>line 215\<close>
  | DeploymentNotice                  \<comment> \<open>line 218\<close>
  | DeploymentRunning                 \<comment> \<open>line 226\<close>
  | DeploymentUrlHint                 \<comment> \<open>line 227\<close>
  | DeploymentUnavailable             \<comment> \<open>line 230\<close>
  | DeploymentStartFailed string      \<comment> \<open>line 233, with \<^verbatim>\<open>{e}\<close>\<close>
  | NoExportableSessions              \<comment> \<open>line 418\<close>
  | ExportableHeader                  \<comment> \<open>line 421\<close>
  | ExportableItem nat string         \<comment> \<open>line 423, with \<^verbatim>\<open>{i+1}\<close> and the session id\<close>
  | ExportedTo string                 \<comment> \<open>line 431, with the export path\<close>
  | InvalidSessionNumber              \<comment> \<open>line 433\<close>
  | InvalidInput                      \<comment> \<open>line 435\<close>
  | ShuttingDown                      \<comment> \<open>line 612\<close>
  | ShutdownComplete                  \<comment> \<open>line 619\<close>

datatype prompt =
    MainMenuPrompt                    \<comment> \<open>line 119\<close>
  | PressEnterPrompt                  \<comment> \<open>line 219\<close>
  | SessionNumberPrompt               \<comment> \<open>line 426\<close>

datatype engine_class = IntegratedTrafficSystem | AutoSmartTrafficSystem

text \<open>
  Calls whose bodies are outside this development: the entry points of the external
  traffic engine, and the launcher's remaining submenus (lines 235 to 608, which neither
  assign \<^verbatim>\<open>current_session_id\<close> nor call \<^verbatim>\<open>start_training_session\<close>,
  \<^verbatim>\<open>end_training_session\<close>, \<^verbatim>\<open>log_event\<close> or \<^verbatim>\<open>close\<close>).
\<close>

datatype opaque_call =
    Construct engine_class
  | Initialize engine_class
  | RunTraining
  | RunAutoTraining
  | RunDeployment
  | PerformanceAnalysis
  | ConfigManagement
  | DatabaseManagement
  | WebMonitoring
  | ShowSystemInfo
  | ProjectSetup

text \<open>
  The trace lists, in order, what the launcher does to the outside: console output and
  input, clock readings, and the calls to its collaborators with their arguments. A call
  is listed whether it returns or raises.
\<close>

datatype 'v action =
    Print line
  | Input prompt
  | GenerateSessionId string
  | GetConfig
  | DbStartSession string "'v dict"
  | DbLogEvent string string string
  | DbEndSession string "string dict"
  | DbClose
  | DbGetSessions nat
  | DbExport string string
  | Opaque opaque_call

text \<open>The rows of \<^verbatim>\<open>get_training_sessions\<close>; the export menu reads \<^verbatim>\<open>session_id\<close> only.\<close>

record session_row =
  session_id :: string

text \<open>
  The attributes of \<^verbatim>\<open>ProjectLauncher\<close> that the modelled methods use, with the console
  input still to come (\<open>Inl e\<close>: \<^verbatim>\<open>input()\<close> raises \<open>e\<close>), the number of clock readings
  taken and the trace. \<open>database\<close> holds the state of the database object, \<open>None\<close> when
  the attribute is \<^verbatim>\<open>None\<close>.
\<close>

record ('db, 'v) launcher =
  config_manager :: "'v config option"
  database :: "'db option"
  current_session_id :: "string option"
  stdin :: "(exn + string) list"
  now_calls :: nat
  trace :: "'v action list"

text \<open>
  The database module is not part of the launcher: its methods are parameters. Each takes
  the state of the database object and returns the outcome and the new state.
\<close>

record ('db, 'v) database_api =
  start_training_session :: "string \<Rightarrow> 'v dict \<Rightarrow> ('db, unit) prog"
  log_event :: "string \<Rightarrow> string \<Rightarrow> string \<Rightarrow> ('db, unit) prog"
  end_training_session :: "string \<Rightarrow> string dict \<Rightarrow> ('db, unit) prog"
  close :: "('db, unit) prog"
  get_training_sessions :: "nat \<Rightarrow> ('db, session_row list) prog"
  export_data :: "string \<Rightarrow> string \<Rightarrow> ('db, bool) prog"

text \<open>
  The module-level flags set by the guarded imports (lines 18 to 57), what
  \<^verbatim>\<open>hasattr\<close> finds in the traffic module, the clock, Python's \<^verbatim>\<open>int()\<close> on console
  input (\<open>None\<close>: \<^verbatim>\<open>ValueError\<close>), the database methods, and the opaque calls: the
  outcome of a call and what it writes to the database may depend on when it is made
  (the length of the trace) and on the database.
\<close>

record ('db, 'v) env =
  CONFIG_AVAILABLE :: bool
  DATABASE_AVAILABLE :: bool
  TRAFFIC_SYSTEM_AVAILABLE :: bool
  has_IntegratedTrafficSystem :: bool
  has_AutoSmartTrafficSystem :: bool
  clock :: "nat \<Rightarrow> datetime"
  py_int :: "string \<Rightarrow> int option"
  db :: "('db, 'v) database_api"
  opaque_result :: "opaque_call \<Rightarrow> nat \<Rightarrow> 'db option \<Rightarrow> exn + bool"
  opaque_writes :: "opaque_call \<Rightarrow> nat \<Rightarrow> 'db \<Rightarrow> 'db"

definition emit :: "'v action \<Rightarrow> ('db, 'v) launcher \<Rightarrow> ('db, 'v) launcher" where
  "emit a w = w\<lparr>trace := trace w @ [a]\<rparr>"

definition py_print :: "line \<Rightarrow> (('db, 'v) launcher, unit) prog" where
  "py_print l w = (Inr (), emit (Print l) w)"

text \<open>\<^verbatim>\<open>input(prompt)\<close>: at the end of the input it raises \<^verbatim>\<open>EOFError\<close>.\<close>

definition py_input :: "prompt \<Rightarrow> (('db, 'v) launcher, string) prog" where
  "py_input p w =
     (case stdin w of
        [] \<Rightarrow> (Inl (Exception ''EOFError'' ''EOF when reading a line''), emit (Input p) w)
      | i # rest \<Rightarrow> (i, (emit (Input p) w)\<lparr>stdin := rest\<rparr>))"

text \<open>\<^verbatim>\<open>str.strip()\<close> on ASCII text.\<close>

definition is_space :: "char \<Rightarrow> bool" where
  "is_space c = (c \<in> set [CHR 0x09, CHR 0x0A, CHR 0x0B, CHR 0x0C, CHR 0x0D,
                          CHR 0x1C, CHR 0x1D, CHR 0x1E, CHR 0x1F, CHR 0x20])"

definition strip :: "string \<Rightarrow> string" where
  "strip s = rev (dropWhile is_space (rev (dropWhile is_space s)))"

text \<open>
  A method call on \<^verbatim>\<open>self.database\<close>: on \<^verbatim>\<open>None\<close> the attribute lookup raises
  \<^verbatim>\<open>AttributeError\<close> and nothing is called.
\<close>

definition db_call :: "'v action \<Rightarrow> ('db, 'a) prog \<Rightarrow> (('db, 'v) launcher, 'a) prog" where
  "db_call a m w =
     (case database w of
        None \<Rightarrow> (Inl (Exception ''AttributeError'' ''NoneType''), w)
      | Some d \<Rightarrow> (case m d of (r, d') \<Rightarrow> (r, (emit a w)\<lparr>database := Some d'\<rparr>)))"

definition call_opaque :: "('db, 'v) env \<Rightarrow> opaque_call \<Rightarrow> (('db, 'v) launcher, bool) prog" where
  "call_opaque env c w =
     (opaque_result env c (length (trace w)) (database w),
      (emit (Opaque c) w)\<lparr>database := map_option (opaque_writes env c (length (trace w))) (database w)\<rparr>)"

text \<open>\<^verbatim>\<open>self.config_manager.get_config()\<close>\<close>

definition get_config :: "(('db, 'v) launcher, 'v config) prog" where
  "get_config w =
     (case config_manager w of
        None \<Rightarrow> (Inl (Exception ''AttributeError'' ''NoneType''), w)
      | Some c \<Rightarrow> (Inr c, emit GetConfig w))"

section \<open>The launcher's methods\<close>

text \<open>
  \<^verbatim>\<open>ProjectLauncher.__init__\<close> with \<^verbatim>\<open>_init_components\<close> (lines 62 to 93): the
  configuration manager and the database object exist exactly when their modules were
  imported. The console lines of the constructor are not part of the trace.
\<close>

definition init_launcher :: "('db, 'v) env \<Rightarrow> 'v config \<Rightarrow> 'db \<Rightarrow> (exn + string) list \<Rightarrow> ('db, 'v) launcher" where
  "init_launcher env c d ins =
     \<lparr>config_manager = (if CONFIG_AVAILABLE env then Some c else None),
      database = (if DATABASE_AVAILABLE env then Some d else None),
      current_session_id = None,
      stdin = ins,
      now_calls = 0,
      trace = []\<rparr>"

text \<open>
  \<^verbatim>\<open>if self.current_session_id: self.database.end_training_session(self.current_session_id, {"status": status})\<close>
  (lines 207 to 208 and 615 to 616): \<^verbatim>\<open>None\<close> and the empty string are false.
\<close>

definition end_current_session :: "('db, 'v) env \<Rightarrow> string \<Rightarrow> (('db, 'v) launcher, unit) prog" where
  "end_current_session env status w =
     (case current_session_id w of
        None \<Rightarrow> ret () w
      | Some sid \<Rightarrow>
          if sid \<noteq> []
          then db_call (DbEndSession sid [(''status'', status)])
                 (end_training_session (db env) sid [(''status'', status)]) w
          else ret () w)"

text \<open>\<^verbatim>\<open>shutdown\<close> (lines 610 to 619).\<close>

definition shutdown :: "('db, 'v) env \<Rightarrow> (('db, 'v) launcher, unit) prog" where
  "shutdown env =
     seq (py_print ShuttingDown) (\<lambda>_.
     seq (\<lambda>w. if database w \<noteq> None
              then seq (end_current_session env ''stopped'') (\<lambda>_.
                   db_call DbClose (close (db env))) w
              else ret () w) (\<lambda>_.
     py_print ShutdownComplete))"

text \<open>\<^verbatim>\<open>_signal_handler\<close> (lines 95 to 99); \<^verbatim>\<open>sys.exit(0)\<close> raises \<^verbatim>\<open>SystemExit(0)\<close>.\<close>

definition signal_handler :: "('db, 'v) env \<Rightarrow> (('db, 'v) launcher, unit) prog" where
  "signal_handler env =
     seq (py_print InterruptReceived) (\<lambda>_.
     seq (shutdown env) (\<lambda>_.
     throw (SystemExit 0)))"

text \<open>The two messages passed to \<^verbatim>\<open>log_event\<close> (lines 180 and 203), as UTF-8 bytes.\<close>

definition session_started_prefix :: string where
  "session_started_prefix =
     [CHR 0xE5, CHR 0xBC, CHR 0x80, CHR 0xE5, CHR 0xA7, CHR 0x8B, CHR 0xE8, CHR 0xAE, CHR 0xAD,
      CHR 0xE7, CHR 0xBB, CHR 0x83, CHR 0xE4, CHR 0xBC, CHR 0x9A, CHR 0xE8, CHR 0xAF, CHR 0x9D,
      CHR 0x3A, CHR 0x20]"

definition training_failed_prefix :: string where
  "training_failed_prefix =
     [CHR 0xE8, CHR 0xAE, CHR 0xAD, CHR 0xE7, CHR 0xBB, CHR 0x83, CHR 0xE5, CHR 0x90, CHR 0xAF,
      CHR 0xE5, CHR 0x8A, CHR 0xA8, CHR 0xE5, CHR 0xA4, CHR 0xB1, CHR 0xE8, CHR 0xB4, CHR 0xA5,
      CHR 0x3A, CHR 0x20]"

text \<open>The dict built at lines 171 to 177.\<close>

definition config_dict_of :: "'v config \<Rightarrow> 'v dict" where
  "config_dict_of c =
     [(''target_efficiency'', target_efficiency (training c)),
      (''target_mobility'', target_mobility (training c)),
      (''max_episodes'', max_episodes (training c)),
      (''learning_rate'', learning_rate (agent c)),
      (''num_vehicles'', num_vehicles (environment c))]"

text \<open>
  \<^verbatim>\<open>start_training\<close> (lines 150 to 208), in four parts: the session id (line 159), the
  configuration (lines 162 to 165), the registration (lines 168 to 180) and the guarded
  run (lines 182 to 208). The attribute \<^verbatim>\<open>self.current_session_id\<close> is assigned at line
  159 and nowhere else, so the registration and line 188 read back the id just generated:
  it is passed on as \<open>sid\<close>. The local \<^verbatim>\<open>config\<close> is \<open>None\<close> while it is the empty dict of
  line 162, whose attribute \<^verbatim>\<open>training\<close> does not exist.
\<close>

definition generate_session_id :: "('db, 'v) env \<Rightarrow> (('db, 'v) launcher, string) prog" where
  "generate_session_id env w =
     (let sid = train_session_id (clock env (now_calls w))
      in (Inr sid, (emit (GenerateSessionId sid) w)
                     \<lparr>current_session_id := Some sid, now_calls := Suc (now_calls w)\<rparr>))"

definition read_config :: "('db, 'v) env \<Rightarrow> (('db, 'v) launcher, 'v config option) prog" where
  "read_config env =
     (if CONFIG_AVAILABLE env
      then seq get_config (\<lambda>c. seq (py_print UsingConfigFile) (\<lambda>_. ret (Some c)))
      else ret None)"

definition build_config_dict :: "('db, 'v) env \<Rightarrow> 'v config option \<Rightarrow> (('db, 'v) launcher, 'v dict) prog" where
  "build_config_dict env config =
     (if CONFIG_AVAILABLE env
      then (case config of
              None \<Rightarrow> throw (Exception ''AttributeError'' ''training'')
            | Some c \<Rightarrow> ret (config_dict_of c))
      else ret [])"

definition register_session :: "('db, 'v) env \<Rightarrow> string \<Rightarrow> 'v config option \<Rightarrow> (('db, 'v) launcher, unit) prog" where
  "register_session env sid config =
     (if DATABASE_AVAILABLE env
      then seq (build_config_dict env config) (\<lambda>config_dict.
           seq (db_call (DbStartSession sid config_dict)
                  (start_training_session (db env) sid config_dict)) (\<lambda>_.
           db_call (DbLogEvent ''INFO'' ''launcher'' (session_started_prefix @ sid))
             (log_event (db env) ''INFO'' ''launcher'' (session_started_prefix @ sid))))
      else ret ())"

definition run_engine :: "('db, 'v) env \<Rightarrow> string \<Rightarrow> engine_class \<Rightarrow> opaque_call \<Rightarrow> (('db, 'v) launcher, unit) prog" where
  "run_engine env sid k run =
     seq (call_opaque env (Construct k)) (\<lambda>_.
     seq (call_opaque env (Initialize k)) (\<lambda>ok.
     if ok
     then seq (py_print (TrainingSessionId sid)) (\<lambda>_.
          seq (call_opaque env run) (\<lambda>_. ret ()))
     else ret ()))"

definition training_body :: "('db, 'v) env \<Rightarrow> string \<Rightarrow> (('db, 'v) launcher, unit) prog" where
  "training_body env sid =
     (if has_IntegratedTrafficSystem env then run_engine env sid IntegratedTrafficSystem RunTraining
      else if has_AutoSmartTrafficSystem env then run_engine env sid AutoSmartTrafficSystem RunAutoTraining
      else py_print NoTrafficSystemClass)"

definition training_failed :: "('db, 'v) env \<Rightarrow> exn \<Rightarrow> (('db, 'v) launcher, unit) prog" where
  "training_failed env e =
     seq (py_print (TrainingStartFailed (str_exn e))) (\<lambda>_.
     if DATABASE_AVAILABLE env
     then db_call (DbLogEvent ''ERROR'' ''launcher'' (training_failed_prefix @ str_exn e))
            (log_event (db env) ''ERROR'' ''launcher'' (training_failed_prefix @ str_exn e))
     else ret ())"

definition close_session :: "('db, 'v) env \<Rightarrow> (('db, 'v) launcher, unit) prog" where
  "close_session env =
     (if DATABASE_AVAILABLE env then end_current_session env ''completed'' else ret ())"

definition guarded_run :: "('db, 'v) env \<Rightarrow> string \<Rightarrow> (('db, 'v) launcher, unit) prog" where
  "guarded_run env sid =
     try_finally (try_except (training_body env sid) is_Exception (training_failed env))
       (close_session env)"

definition start_training :: "('db, 'v) env \<Rightarrow> (('db, 'v) launcher, unit) prog" where
  "start_training env =
     seq (py_print TrainingHeader) (\<lambda>_.
     if \<not> TRAFFIC_SYSTEM_AVAILABLE env then py_print TrafficSystemMissing
     else seq (generate_session_id env) (\<lambda>sid.
          seq (read_config env) (\<lambda>config.
          seq (register_session env sid config) (\<lambda>_.
          guarded_run env sid))))"

text \<open>\<^verbatim>\<open>start_deployment\<close> (lines 210 to 233).\<close>

definition deployment_body :: "('db, 'v) env \<Rightarrow> (('db, 'v) launcher, unit) prog" where
  "deployment_body env =
     (if has_IntegratedTrafficSystem env
      then seq (call_opaque env (Construct IntegratedTrafficSystem)) (\<lambda>_.
           seq (call_opaque env (Initialize IntegratedTrafficSystem)) (\<lambda>ok.
           if ok
           then seq (py_print DeploymentRunning) (\<lambda>_.
                seq (py_print DeploymentUrlHint) (\<lambda>_.
                seq (call_opaque env RunDeployment) (\<lambda>_. ret ())))
           else ret ()))
      else py_print DeploymentUnavailable)"

definition start_deployment :: "('db, 'v) env \<Rightarrow> (('db, 'v) launcher, unit) prog" where
  "start_deployment env =
     seq (py_print DeploymentHeader) (\<lambda>_.
     if \<not> TRAFFIC_SYSTEM_AVAILABLE env then py_print TrafficSystemUnavailable
     else seq (py_print DeploymentNotice) (\<lambda>_.
          seq (py_input PressEnterPrompt) (\<lambda>_.
          try_except (deployment_body env) is_Exception
            (\<lambda>e. py_print (DeploymentStartFailed (str_exn e))))))"

text \<open>
  The export option of \<^verbatim>\<open>database_management\<close> (lines 415 to 435). The index is in
  range where \<^verbatim>\<open>sessions[idx]\<close> is read.
\<close>

fun print_all :: "line list \<Rightarrow> (('db, 'v) launcher, unit) prog" where
  "print_all [] = ret ()"
| "print_all (l # ls) = seq (py_print l) (\<lambda>_. print_all ls)"

text \<open>\<^verbatim>\<open>f"export_{session_id}.json"\<close>\<close>

definition export_path_of :: "string \<Rightarrow> string" where
  "export_path_of sid = ''export_'' @ sid @ ''.json''"

definition export_selected :: "('db, 'v) env \<Rightarrow> session_row list \<Rightarrow> (('db, 'v) launcher, unit) prog" where
  "export_selected env sessions =
     seq (py_input SessionNumberPrompt) (\<lambda>s.
     case py_int env s of
       None \<Rightarrow> throw (Exception ''ValueError'' ''invalid literal for int()'')
     | Some n \<Rightarrow>
         let idx = n - 1 in
         if 0 \<le> idx \<and> idx < int (length sessions)
         then let sid = session_id (sessions ! nat idx);
                  export_path = export_path_of sid
              in seq (db_call (DbExport sid export_path) (export_data (db env) sid export_path))
                   (\<lambda>ok. if ok then py_print (ExportedTo export_path) else ret ())
         else py_print InvalidSessionNumber)"

definition export_option :: "('db, 'v) env \<Rightarrow> (('db, 'v) launcher, unit) prog" where
  "export_option env =
     seq (db_call (DbGetSessions 10) (get_training_sessions (db env) 10)) (\<lambda>sessions.
     if sessions = [] then py_print NoExportableSessions
     else seq (py_print ExportableHeader) (\<lambda>_.
          seq (print_all (map (\<lambda>(i, r). ExportableItem (Suc i) (session_id r)) (enumerate 0 sessions))) (\<lambda>_.
          try_except (export_selected env sessions) is_ValueError_or_IndexError
            (\<lambda>e. py_print InvalidInput))))"

text \<open>
  \<^verbatim>\<open>show_main_menu\<close> (lines 101 to 148). \<open>menu_choice\<close> is the body of the
  \<^verbatim>\<open>try\<close>; it returns whether the loop is left by \<^verbatim>\<open>break\<close>.
\<close>

definition menu_choice :: "('db, 'v) env \<Rightarrow> (('db, 'v) launcher, bool) prog" where
  "menu_choice env =
     seq (py_input MainMenuPrompt) (\<lambda>s.
     let choice = strip s in
     if choice = ''1'' then seq (start_training env) (\<lambda>_. ret False)
     else if choice = ''2'' then seq (start_deployment env) (\<lambda>_. ret False)
     else if choice = ''3'' then seq (call_opaque env PerformanceAnalysis) (\<lambda>_. ret False)
     else if choice = ''4'' then seq (call_opaque env ConfigManagement) (\<lambda>_. ret False)
     else if choice = ''5'' then seq (call_opaque env DatabaseManagement) (\<lambda>_. ret False)
     else if choice = ''6'' then seq (call_opaque env WebMonitoring) (\<lambda>_. ret False)
     else if choice = ''7'' then seq (call_opaque env ShowSystemInfo) (\<lambda>_. ret False)
     else if choice = ''8'' then seq (call_opaque env ProjectSetup) (\<lambda>_. ret False)
     else if choice = ''0'' then seq (shutdown env) (\<lambda>_. ret True)
     else seq (py_print InvalidChoice) (\<lambda>_. ret False))"

text \<open>One round of the \<^verbatim>\<open>while True\<close> loop: the banner, the \<^verbatim>\<open>try\<close> and its handlers.\<close>

datatype round = Continue | Break | Propagate exn

definition menu_round :: "('db, 'v) env \<Rightarrow> ('db, 'v) launcher \<Rightarrow> round \<times> ('db, 'v) launcher" where
  "menu_round env w =
     (case menu_choice env (emit (Print MenuBanner) w) of
        (Inr leave, w') \<Rightarrow> (if leave then Break else Continue, w')
      | (Inl e, w') \<Rightarrow>
          if is_KeyboardInterrupt e
          then (case seq (py_print Newline) (\<lambda>_. shutdown env) w' of
                  (Inr u, w'') \<Rightarrow> (Break, w'')
                | (Inl e', w'') \<Rightarrow> (Propagate e', w''))
          else if is_Exception e
          then (Continue, emit (Print (OperationError (str_exn e))) w')
          else (Propagate e, w'))"

text \<open>
  The loop can run forever (at the end of the input every round raises and catches
  \<^verbatim>\<open>EOFError\<close>), so it takes a bound on the number of rounds; \<open>Looping\<close> is the state
  after that many rounds with the loop not yet left.
\<close>

datatype outcome = Returned | Raised exn | Looping

fun show_main_menu :: "nat \<Rightarrow> ('db, 'v) env \<Rightarrow> ('db, 'v) launcher \<Rightarrow> outcome \<times> ('db, 'v) launcher" where
  "show_main_menu 0 env w = (Looping, w)"
| "show_main_menu (Suc n) env w =
     (case menu_round env w of
        (Continue, w') \<Rightarrow> show_main_menu n env w'
      | (Break, w') \<Rightarrow> (Returned, w')
      | (Propagate e, w') \<Rightarrow> (Raised e, w'))"

text \<open>\<^verbatim>\<open>main\<close> (lines 621 to 624).\<close>

definition main :: "nat \<Rightarrow> ('db, 'v) env \<Rightarrow> 'v config \<Rightarrow> 'db \<Rightarrow> (exn + string) list \<Rightarrow> outcome \<times> ('db, 'v) launcher" where
  "main n env c d ins = show_main_menu n env (init_launcher env c d ins)"

section \<open>The telemetry store\<close>

text \<open>
  The module \<^verbatim>\<open>database\<close> that the launcher imports (\<^verbatim>\<open>TrafficDatabase\<close>,
  \<^verbatim>\<open>get_database\<close>) is not among the sources. The store below follows sections 3, 4, 7
  and 9 of the specification. Time is the store's own count of the writes made.
\<close>

text \<open>
  Modelled from the spec: the states of a session (section 3), \<open>running\<close> and the three
  terminal ones; the class that holds them is missing.
\<close>

datatype status = Running | Completed | Stopped | Failed

text \<open>Modelled from the spec: the error taxonomy of section 7; the module that raises them is missing.\<close>

datatype error =
    NotFoundError
  | DuplicateSessionError
  | InvalidStateError
  | StorageUnavailableError
  | ExportIOError

text \<open>
  Modelled from the spec: the session record of section 3 (state, start and end time,
  configuration snapshot, running totals, result payload recorded at close); the class
  that stores it is missing.
\<close>

record 'v session =
  status :: status
  start_time :: nat
  end_time :: "nat option"
  config_snapshot :: "'v dict"
  episode_count :: nat
  best_score :: real
  result_payload :: "string dict option"

text \<open>Modelled from the spec: the event record of section 3; the event log is missing.\<close>

record event =
  timestamp :: nat
  level :: string
  source :: string
  message :: string
  session_ref :: "string option"

text \<open>
  Modelled from the spec: the export document of section 4.5 (the session record with
  its events); the export engine is missing.
\<close>

record 'v export_document =
  exported_session :: "'v session"
  exported_events :: "event list"

text \<open>
  Modelled from the spec: the durable store of section 6, sessions most recent first and
  events in write order, with the files written by exports (by destination) and the
  destinations that cannot be written. The specification has no contract for a store
  that was closed: \<open>is_closed\<close> records the call and restricts nothing.
\<close>

record 'v store =
  sessions :: "(string \<times> 'v session) list"
  events :: "event list"
  files :: "(string \<times> 'v export_document) list"
  read_only :: "string list"
  is_closed :: bool
  ticks :: nat

text \<open>Modelled from the spec: \<^verbatim>\<open>get_session(id) -> Session | absent\<close> of section 4.1.\<close>

definition get_session :: "string \<Rightarrow> 'v store \<Rightarrow> 'v session option" where
  "get_session sid s = map_of (sessions s) sid"

text \<open>
  Modelled from the spec: \<^verbatim>\<open>start_session(id, config)\<close> of section 4.1, which creates a
  session in state \<open>running\<close> with the given snapshot and zeroed totals and fails with
  \<open>DuplicateSessionError\<close> if the id exists.
\<close>

definition start_session :: "string \<Rightarrow> 'v dict \<Rightarrow> 'v store \<Rightarrow> (error + unit) \<times> 'v store" where
  "start_session sid cfg s =
     (if get_session sid s \<noteq> None then (Inl DuplicateSessionError, s)
      else (Inr (),
            s\<lparr>sessions :=
                (sid, \<lparr>status = Running, start_time = ticks s, end_time = None,
                       config_snapshot = cfg, episode_count = 0, best_score = 0,
                       result_payload = None\<rparr>) # sessions s,
              ticks := Suc (ticks s)\<rparr>))"

text \<open>
  Modelled from the spec: \<^verbatim>\<open>log(level, source, message, session_id=optional)\<close> of section
  4.2, which appends one record.
\<close>

definition log_record :: "string \<Rightarrow> string \<Rightarrow> string \<Rightarrow> string option \<Rightarrow> 'v store \<Rightarrow> 'v store" where
  "log_record lvl src m ref s =
     s\<lparr>events := events s @ [\<lparr>timestamp = ticks s, level = lvl, source = src, message = m,
                               session_ref = ref\<rparr>],
       ticks := Suc (ticks s)\<rparr>"

text \<open>
  Modelled from the spec: the terminal state derived from \<^verbatim>\<open>result.status\<close>
  (\<open>completed\<close>, \<open>stopped\<close> or \<open>failed\<close>, section 4.1). The specification names no state
  for any other payload.
\<close>

definition status_of_result :: "string dict \<Rightarrow> status option" where
  "status_of_result r =
     (case map_of r ''status'' of
        None \<Rightarrow> None
      | Some v \<Rightarrow>
          if v = ''completed'' then Some Completed
          else if v = ''stopped'' then Some Stopped
          else if v = ''failed'' then Some Failed
          else None)"

text \<open>
  Modelled from the spec: \<^verbatim>\<open>end_session(id, result)\<close> of section 4.1. A running session
  moves to the terminal state of the result, with the end time stamped and the payload
  stored. On a session that is already terminal the call logs a warning (an event of
  level \<open>WARNING\<close>; the specification does not give its source or text) and leaves the
  state unchanged; section 9 treats the close of an unknown session the same way. A
  payload without one of the three statuses is rejected with \<open>InvalidStateError\<close>.
\<close>

definition end_session :: "string \<Rightarrow> string dict \<Rightarrow> 'v store \<Rightarrow> (error + unit) \<times> 'v store" where
  "end_session sid r s =
     (case get_session sid s of
        None \<Rightarrow> (Inr (), log_record ''WARNING'' ''database'' ''end_session ignored'' (Some sid) s)
      | Some ses \<Rightarrow>
          if status ses \<noteq> Running
          then (Inr (), log_record ''WARNING'' ''database'' ''end_session ignored'' (Some sid) s)
          else (case status_of_result r of
                  None \<Rightarrow> (Inl InvalidStateError, s)
                | Some st \<Rightarrow>
                    (Inr (),
                     s\<lparr>sessions :=
                         AList.update sid
                           (ses\<lparr>status := st, end_time := Some (ticks s), result_payload := Some r\<rparr>)
                           (sessions s),
                       ticks := Suc (ticks s)\<rparr>)))"

text \<open>
  Modelled from the spec: \<^verbatim>\<open>get_sessions(limit, order=most-recent-first)\<close> of section
  4.1, at most \<open>limit\<close> entries.
\<close>

definition get_sessions :: "nat \<Rightarrow> 'v store \<Rightarrow> (string \<times> 'v session) list" where
  "get_sessions limit s = take limit (sessions s)"

text \<open>
  Modelled from the spec: \<^verbatim>\<open>export(session_id, destination) -> success | failure\<close> of
  section 4.5. It fails, as a result and not as a fault, with \<open>NotFoundError\<close> if the
  session is unknown and with \<open>ExportIOError\<close> if the destination is not writable;
  otherwise it writes the session record and its events to the destination.
\<close>

datatype export_result = Success | Failure error

text \<open>
  Modelled from the spec: the operation \<^verbatim>\<open>export\<close> itself, under the contract above; the
  export engine is missing.
\<close>

definition export :: "string \<Rightarrow> string \<Rightarrow> 'v store \<Rightarrow> export_result \<times> 'v store" where
  "export sid dest s =
     (case get_session sid s of
        None \<Rightarrow> (Failure NotFoundError, s)
      | Some ses \<Rightarrow>
          if dest \<in> set (read_only s) then (Failure ExportIOError, s)
          else (Success,
                s\<lparr>files :=
                    AList.update dest
                      \<lparr>exported_session = ses,
                       exported_events = filter (\<lambda>e. session_ref e = Some sid) (events s)\<rparr>
                      (files s)\<rparr>))"

text \<open>
  Modelled from the spec: the exception by which an error of section 7 surfaces to the
  caller; the module that raises it is missing.
\<close>

fun exn_of_error :: "error \<Rightarrow> exn" where
  "exn_of_error NotFoundError = Exception ''NotFoundError'' []"
| "exn_of_error DuplicateSessionError = Exception ''DuplicateSessionError'' []"
| "exn_of_error InvalidStateError = Exception ''InvalidStateError'' []"
| "exn_of_error StorageUnavailableError = Exception ''StorageUnavailableError'' []"
| "exn_of_error ExportIOError = Exception ''ExportIOError'' []"

text \<open>
  Modelled from the spec: a failure of a session-lifecycle call surfaces to the caller
  (section 7); the methods doing so are missing.
\<close>

definition surface :: "(error + 'a) \<times> 's \<Rightarrow> (exn + 'a) \<times> 's" where
  "surface p = (case p of (Inl e, s) \<Rightarrow> (Inl (exn_of_error e), s) | (Inr x, s) \<Rightarrow> (Inr x, s))"

text \<open>
  Modelled from the spec: the methods of the missing class \<^verbatim>\<open>TrafficDatabase\<close> that the
  launcher calls, over the store above. A failure of a session-lifecycle call surfaces
  to the caller as an exception (section 7), logging never raises (section 4.2), an
  export reports its failure as a false result (section 4.5), and \<^verbatim>\<open>close\<close> marks the
  store closed.
\<close>

definition store_api :: "('v store, 'v) database_api" where
  "store_api =
     \<lparr>start_training_session = (\<lambda>sid cfg s. surface (start_session sid cfg s)),
      log_event = (\<lambda>lvl src m s. (Inr (), log_record lvl src m None s)),
      end_training_session = (\<lambda>sid r s. surface (end_session sid r s)),
      close = (\<lambda>s. (Inr (), s\<lparr>is_closed := True\<rparr>)),
      get_training_sessions = (\<lambda>limit s. (Inr (map (\<lambda>(sid, ses). \<lparr>session_id = sid\<rparr>) (get_sessions limit s)), s)),
      export_data = (\<lambda>sid dest s. case export sid dest s of
                                     (Success, s') \<Rightarrow> (Inr True, s')
                                   | (Failure e, s') \<Rightarrow> (Inr False, s'))\<rparr>"

text \<open>
  Modelled from the spec: a session that is not \<open>running\<close> (section 3), being unknown to
  the store or in a terminal state; the store that holds it is missing.
\<close>

definition not_running :: "string \<Rightarrow> 'v store \<Rightarrow> bool" where
  "not_running sid s = (case get_session sid s of None \<Rightarrow> True | Some ses \<Rightarrow> status ses \<noteq> Running)"

section \<open>Observations on runs\<close>

text \<open>
  \<open>steps R m\<close>: every run of \<open>m\<close>, whether it returns or raises, takes a state to one
  related to it by \<open>R\<close>. The relations: \<open>keeps\<close> (the attributes other than the state
  of the database object and the trace stay as they are), \<open>same_database\<close>, and
  \<open>adds Q\<close> (the trace grows by actions that all satisfy \<open>Q\<close>).
\<close>

definition steps :: "('w \<Rightarrow> 'w \<Rightarrow> bool) \<Rightarrow> ('w, 'a) prog \<Rightarrow> bool" where
  "steps R m \<longleftrightarrow> (\<forall>w. R w (snd (m w)))"

definition keeps :: "('db, 'v) launcher \<Rightarrow> ('db, 'v) launcher \<Rightarrow> bool" where
  "keeps w w' \<longleftrightarrow>
     current_session_id w' = current_session_id w \<and> now_calls w' = now_calls w \<and>
     config_manager w' = config_manager w \<and> (database w' = None \<longleftrightarrow> database w = None)"

definition same_database :: "('db, 'v) launcher \<Rightarrow> ('db, 'v) launcher \<Rightarrow> bool" where
  "same_database w w' \<longleftrightarrow> database w' = database w"

definition adds :: "('v action \<Rightarrow> bool) \<Rightarrow> ('db, 'v) launcher \<Rightarrow> ('db, 'v) launcher \<Rightarrow> bool" where
  "adds Q w w' \<longleftrightarrow> (\<exists>tr. trace w' = trace w @ tr \<and> list_all Q tr)"

text \<open>The actions by which the launcher itself produces a session or telemetry.\<close>

fun store_action :: "'v action \<Rightarrow> bool" where
  "store_action (GenerateSessionId sid) = True"
| "store_action (DbStartSession sid c) = True"
| "store_action (DbLogEvent lvl src m) = True"
| "store_action (DbEndSession sid r) = True"
| "store_action DbClose = True"
| "store_action (DbGetSessions n) = True"
| "store_action (DbExport sid dest) = True"
| "store_action (Print l) = False"
| "store_action (Input p) = False"
| "store_action GetConfig = False"
| "store_action (Opaque c) = False"

text \<open>The result payloads passed to \<^verbatim>\<open>end_training_session\<close>, in order.\<close>

fun end_payload :: "'v action \<Rightarrow> string dict option" where
  "end_payload (DbEndSession sid r) = Some r"
| "end_payload (Print l) = None"
| "end_payload (Input p) = None"
| "end_payload (GenerateSessionId sid) = None"
| "end_payload GetConfig = None"
| "end_payload (DbStartSession sid c) = None"
| "end_payload (DbLogEvent lvl src m) = None"
| "end_payload DbClose = None"
| "end_payload (DbGetSessions n) = None"
| "end_payload (DbExport sid dest) = None"
| "end_payload (Opaque c) = None"

definition end_payloads :: "'v action list \<Rightarrow> string dict list" where
  "end_payloads tr = List.map_filter end_payload tr"

text \<open>The sessions registered with \<^verbatim>\<open>start_training_session\<close>, with their snapshots.\<close>

fun registration :: "'v action \<Rightarrow> (string \<times> 'v dict) option" where
  "registration (DbStartSession sid c) = Some (sid, c)"
| "registration (Print l) = None"
| "registration (Input p) = None"
| "registration (GenerateSessionId sid) = None"
| "registration GetConfig = None"
| "registration (DbLogEvent lvl src m) = None"
| "registration (DbEndSession sid r) = None"
| "registration DbClose = None"
| "registration (DbGetSessions n) = None"
| "registration (DbExport sid dest) = None"
| "registration (Opaque c) = None"

definition registrations :: "'v action list \<Rightarrow> (string \<times> 'v dict) list" where
  "registrations tr = List.map_filter registration tr"

text \<open>
  The five steps of a training start: the session id, the configuration, the
  registration, the \<open>INFO\<close> event, and the engine's blocking run.
\<close>

datatype step = GenerateId | CaptureConfig | RegisterSession | LogInfoEvent | DelegateRun

fun step_of :: "'v action \<Rightarrow> step option" where
  "step_of (GenerateSessionId sid) = Some GenerateId"
| "step_of GetConfig = Some CaptureConfig"
| "step_of (DbStartSession sid c) = Some RegisterSession"
| "step_of (DbLogEvent lvl src m) = (if lvl = ''INFO'' then Some LogInfoEvent else None)"
| "step_of (Opaque c) = (if c = RunTraining \<or> c = RunAutoTraining then Some DelegateRun else None)"
| "step_of (Print l) = None"
| "step_of (Input p) = None"
| "step_of (DbEndSession sid r) = None"
| "step_of DbClose = None"
| "step_of (DbGetSessions n) = None"
| "step_of (DbExport sid dest) = None"

definition steps_taken :: "'v action list \<Rightarrow> step list" where
  "steps_taken tr = List.map_filter step_of tr"

text \<open>\<open>emits P\<close>: the trace grows by actions whose steps, in order, satisfy \<open>P\<close>.\<close>

definition emits :: "(step list \<Rightarrow> bool) \<Rightarrow> ('db, 'v) launcher \<Rightarrow> ('db, 'v) launcher \<Rightarrow> bool" where
  "emits P w w' \<longleftrightarrow> (\<exists>tr. trace w' = trace w @ tr \<and> P (steps_taken tr))"

text \<open>The actions added to the trace between two states of a run.\<close>

definition added :: "('db, 'v) launcher \<Rightarrow> ('db, 'v) launcher \<Rightarrow> 'v action list" where
  "added w w' = drop (length (trace w)) (trace w')"

text \<open>An action that passes no payload other than the launcher's two to \<^verbatim>\<open>end_training_session\<close>.\<close>

definition launcher_payload :: "'v action \<Rightarrow> bool" where
  "launcher_payload a \<longleftrightarrow>
     end_payload a \<in> {None, Some [(''status'', ''completed'')], Some [(''status'', ''stopped'')]}"

section \<open>Example runs\<close>

text \<open>A clock reading.\<close>

definition noon :: datetime where
  "noon = \<lparr>year = 2024, month = 1, day = 2, hour = 12, minute = 0, second = 0, microsecond = 0\<rparr>"


text \<open>
  A launcher with every component available, over the telemetry store, whose engine
  initialises and returns from every call; the clock advances by a second per reading.
\<close>

definition demo_clock :: "nat \<Rightarrow> datetime" where
  "demo_clock k = \<lparr>year = 2024, month = 1, day = 2, hour = 3, minute = 4, second = k mod 60, microsecond = 0\<rparr>"

definition demo_config :: "int config" where
  "demo_config =
     \<lparr>training = \<lparr>target_efficiency = 75, target_mobility = 80, max_episodes = 100\<rparr>,
      agent = \<lparr>learning_rate = 1\<rparr>,
      environment = \<lparr>num_vehicles = 20\<rparr>,
      web = \<lparr>enabled = 1, host = 0, port = 5000\<rparr>\<rparr>"

definition empty_store :: "int store" where
  "empty_store =
     \<lparr>sessions = [], events = [], files = [], read_only = [], is_closed = False, ticks = 0\<rparr>"

definition demo_env :: "(int store, int) env" where
  "demo_env =
     \<lparr>CONFIG_AVAILABLE = True, DATABASE_AVAILABLE = True, TRAFFIC_SYSTEM_AVAILABLE = True,
      has_IntegratedTrafficSystem = True, has_AutoSmartTrafficSystem = False,
      clock = demo_clock, py_int = (\<lambda>s. if s = ''1'' then Some 1 else None), db = store_api,
      opaque_result = (\<lambda>c k d. Inr True), opaque_writes = (\<lambda>c k d. d)\<rparr>"

definition demo_launcher :: "(exn + string) list \<Rightarrow> (int store, int) launcher" where
  "demo_launcher ins = init_launcher demo_env demo_config empty_store ins"

text \<open>The same launcher after one training run.\<close>

definition trained_launcher :: "(exn + string) list \<Rightarrow> (int store, int) launcher" where
  "trained_launcher ins = snd (start_training demo_env (demo_launcher ins))"

text \<open>The launcher while a training run is in progress: the session is registered and running.\<close>

definition running_launcher :: "(int store, int) launcher" where
  "running_launcher =
     snd (seq (generate_session_id demo_env) (\<lambda>sid.
          seq (read_config demo_env) (\<lambda>config. register_session demo_env sid config))
            (demo_launcher []))"

text \<open>What a run shows of the store: the status, end time and result payload of each session.\<close>

definition session_states :: "('v store, 'v) launcher \<Rightarrow> (string \<times> status \<times> nat option \<times> string dict option) list" where
  "session_states w =
     (case database w of
        None \<Rightarrow> []
      | Some s \<Rightarrow> map (\<lambda>(sid, ses). (sid, status ses, end_time ses, result_payload ses)) (sessions s))"

text \<open>The same environment where the opaque call \<open>c\<close> raises \<open>e\<close>.\<close>

definition raising_env :: "opaque_call \<Rightarrow> exn \<Rightarrow> (int store, int) env" where
  "raising_env c e =
     demo_env\<lparr>opaque_result := (\<lambda>c' k d. if c' = c then Inl e else Inr True)\<rparr>"

text \<open>
  The same environment with an engine whose \<^verbatim>\<open>run_deployment\<close> writes one event to the
  store, which it reaches through the module-level handle of the database module.
\<close>

definition logging_engine_env :: "(int store, int) env" where
  "logging_engine_env =
     demo_env\<lparr>opaque_writes :=
       (\<lambda>c k d. if c = RunDeployment
                then log_record ''INFO'' ''traffic_system'' ''deployment running'' None d
                else d)\<rparr>"

text \<open>The same environment without the database module, and its launcher.\<close>

definition no_database_env :: "(int store, int) env" where
  "no_database_env = demo_env\<lparr>DATABASE_AVAILABLE := False\<rparr>"

definition no_database_launcher :: "(int store, int) launcher" where
  "no_database_launcher = init_launcher no_database_env demo_config empty_store []"

text \<open>The same environment without the configuration module, and its launcher.\<close>

definition no_config_env :: "(int store, int) env" where
  "no_config_env = demo_env\<lparr>CONFIG_AVAILABLE := False\<rparr>"

definition no_config_launcher :: "(int store, int) launcher" where
  "no_config_launcher = init_launcher no_config_env demo_config empty_store []"

text \<open>A configuration with values out of any sensible range, and its launcher.\<close>

definition odd_config :: "int config" where
  "odd_config =
     \<lparr>training = \<lparr>target_efficiency = - 1, target_mobility = 1000, max_episodes = 0\<rparr>,
      agent = \<lparr>learning_rate = - 3\<rparr>,
      environment = \<lparr>num_vehicles = - 20\<rparr>,
      web = \<lparr>enabled = 1, host = 0, port = 5000\<rparr>\<rparr>"

definition odd_launcher :: "(int store, int) launcher" where
  "odd_launcher = init_launcher demo_env odd_config empty_store []"

text \<open>
  A store holding one completed session, in which the listed destinations cannot be
  written, and a launcher over it.
\<close>

definition archive_store :: "string list \<Rightarrow> int store" where
  "archive_store ro =
     \<lparr>sessions =
        [(''train_20240102_030400'',
          \<lparr>status = Completed, start_time = 0, end_time = Some 2,
           config_snapshot = [(''max_episodes'', 100)], episode_count = 0, best_score = 0,
           result_payload = Some [(''status'', ''completed'')]\<rparr>)],
      events = [], files = [], read_only = ro, is_closed = False, ticks = 3\<rparr>"

definition archive_launcher :: "string list \<Rightarrow> (exn + string) list \<Rightarrow> (int store, int) launcher" where
  "archive_launcher ro ins =
     \<lparr>config_manager = Some demo_config, database = Some (archive_store ro),
      current_session_id = None, stdin = ins, now_calls = 0, trace = []\<rparr>"

text \<open>The operator chooses the first session, with its destination read-only or writable.\<close>

definition read_only_archive :: "(int store, int) launcher" where
  "read_only_archive = archive_launcher [''export_train_20240102_030400.json''] [Inr ''1'']"

definition writable_archive :: "(int store, int) launcher" where
  "writable_archive = archive_launcher [] [Inr ''1'']"

text \<open>The files of the store behind a launcher.\<close>

definition exported_files :: "('v store, 'v) launcher \<Rightarrow> string list" where
  "exported_files w = (case database w of None \<Rightarrow> [] | Some s \<Rightarrow> map fst (files s))"

section \<open>Lemmas\<close>

subsection \<open>Digits and session ids\<close>

lemma digit_eq_iff: "digit a = digit b \<longleftrightarrow> a mod 10 = b mod 10"
proof
  assume "digit a = digit b"
  then have "of_char (char_of (48 + a mod 10 :: nat)) = (of_char (char_of (48 + b mod 10 :: nat)) :: nat)"
    by (simp add: digit_def)
  then have "(48 + a mod 10) mod 256 = (48 + b mod 10) mod 256"
    by (simp only: of_char_of)
  moreover have "a mod 10 < 10" "b mod 10 < 10" by simp_all
  ultimately show "a mod 10 = b mod 10" by simp
next
  assume "a mod 10 = b mod 10"
  then show "digit a = digit b" by (simp add: digit_def)
qed

lemma same_digits: "(x::nat) div 10 = y div 10 \<Longrightarrow> x mod 10 = y mod 10 \<Longrightarrow> x = y"
  by (metis div_mult_mod_eq)

lemma pad2_inj:
  assumes "a < 100" "b < 100" "pad2 a = pad2 b"
  shows "a = b"
proof -
  from assms(3) have "a div 10 mod 10 = b div 10 mod 10" and low: "a mod 10 = b mod 10"
    by (simp_all add: pad2_def digit_eq_iff)
  moreover from assms(1,2) have "a div 10 < 10" "b div 10 < 10" by simp_all
  ultimately have "a div 10 = b div 10" by simp
  then show ?thesis using low by (rule same_digits)
qed

lemma pad4_inj:
  assumes "a < 10000" "b < 10000" "pad4 a = pad4 b"
  shows "a = b"
proof -
  from assms(3) have d3: "a div 1000 mod 10 = b div 1000 mod 10"
    and d2: "a div 100 mod 10 = b div 100 mod 10"
    and d1: "a div 10 mod 10 = b div 10 mod 10"
    and d0: "a mod 10 = b mod 10"
    by (simp_all add: pad4_def digit_eq_iff)
  from assms(1,2) have "a div 1000 < 10" "b div 1000 < 10" by simp_all
  with d3 have e3: "a div 1000 = b div 1000" by simp
  have "a div 100 div 10 = a div 1000" "b div 100 div 10 = b div 1000"
    by (simp_all only: div_mult2_eq [symmetric] semiring_norm)
  with e3 have "a div 100 div 10 = b div 100 div 10" by (simp only:)
  then have e2: "a div 100 = b div 100" using d2 by (rule same_digits)
  have "a div 10 div 10 = a div 100" "b div 10 div 10 = b div 100"
    by (simp_all only: div_mult2_eq [symmetric] semiring_norm)
  with e2 have "a div 10 div 10 = b div 10 div 10" by (simp only:)
  then have "a div 10 = b div 10" using d1 by (rule same_digits)
  then show ?thesis using d0 by (rule same_digits)
qed

lemma length_pad2: "length (pad2 n) = 2"
  by (simp add: pad2_def)

lemma length_pad4: "length (pad4 n) = 4"
  by (simp add: pad4_def)

lemma strftime_inj:
  assumes "valid_datetime d1" "valid_datetime d2" "strftime_Ymd_HMS d1 = strftime_Ymd_HMS d2"
  shows "wall_clock_second d1 = wall_clock_second d2"
proof -
  from assms(3) have "pad4 (year d1) = pad4 (year d2)" "pad2 (month d1) = pad2 (month d2)"
     "pad2 (day d1) = pad2 (day d2)" "pad2 (hour d1) = pad2 (hour d2)"
     "pad2 (minute d1) = pad2 (minute d2)" "pad2 (second d1) = pad2 (second d2)"
    by (simp_all add: strftime_Ymd_HMS_def length_pad2 length_pad4)
  moreover from assms(1,2) have "year d1 < 10000" "year d2 < 10000" "month d1 < 100" "month d2 < 100"
    "day d1 < 100" "day d2 < 100" "hour d1 < 100" "hour d2 < 100" "minute d1 < 100" "minute d2 < 100"
    "second d1 < 100" "second d2 < 100"
    by (simp_all add: valid_datetime_def)
  ultimately show ?thesis
    unfolding wall_clock_second_def
    by (simp add: pad2_inj pad4_inj)
qed

lemma train_session_id_not_empty: "train_session_id d \<noteq> []"
  by (simp add: train_session_id_def)

subsection \<open>Runs of the combinators\<close>

lemma stepsD: "steps R m \<Longrightarrow> m w = (r, w') \<Longrightarrow> R w w'"
  by (auto simp: steps_def dest: spec [of _ w])

lemma stepsI: "(\<And>w. R w (snd (m w))) \<Longrightarrow> steps R m"
  by (simp add: steps_def)

lemma steps_ret: "reflp R \<Longrightarrow> steps R (ret x)"
  by (simp add: steps_def ret_def reflpD)

lemma steps_throw: "reflp R \<Longrightarrow> steps R (throw e)"
  by (simp add: steps_def throw_def reflpD)

lemma steps_if: "(b \<Longrightarrow> steps R m) \<Longrightarrow> (\<not> b \<Longrightarrow> steps R n) \<Longrightarrow> steps R (if b then m else n)"
  by simp

lemma steps_cond:
  "steps R m \<Longrightarrow> steps R n \<Longrightarrow> steps R (\<lambda>w. if b w then m w else n w)"
  by (simp add: steps_def)

lemma steps_seq:
  assumes "transp R" "steps R m" "\<And>x. steps R (f x)"
  shows "steps R (seq m f)"
proof (rule stepsI)
  fix w
  obtain r w' where m: "m w = (r, w')" by (cases "m w")
  with assms(2) have 1: "R w w'" by (rule_tac stepsD)
  show "R w (snd (seq m f w))"
  proof (cases r)
    case (Inl e)
    with m 1 show ?thesis by (simp add: seq_def)
  next
    case (Inr x)
    obtain r' w'' where f: "f x w' = (r', w'')" by (cases "f x w'")
    with assms(3) have "R w' w''" by (rule_tac stepsD)
    with 1 assms(1) have "R w w''" by (blast dest: transpD)
    with m Inr f show ?thesis by (simp add: seq_def)
  qed
qed

lemma steps_try_except:
  assumes "transp R" "steps R m" "\<And>e. steps R (h e)"
  shows "steps R (try_except m c h)"
proof (rule stepsI)
  fix w
  obtain r w' where m: "m w = (r, w')" by (cases "m w")
  with assms(2) have 1: "R w w'" by (rule_tac stepsD)
  show "R w (snd (try_except m c h w))"
  proof (cases r)
    case (Inr x)
    with m 1 show ?thesis by (simp add: try_except_def)
  next
    case (Inl e)
    obtain r' w'' where f: "h e w' = (r', w'')" by (cases "h e w'")
    with assms(3) have "R w' w''" by (rule_tac stepsD)
    with 1 assms(1) have "R w w''" by (blast dest: transpD)
    with m Inl f 1 show ?thesis by (simp add: try_except_def)
  qed
qed

lemma steps_try_finally:
  assumes "transp R" "steps R m" "steps R fin"
  shows "steps R (try_finally m fin)"
proof (rule stepsI)
  fix w
  obtain r w' where m: "m w = (r, w')" by (cases "m w")
  with assms(2) have 1: "R w w'" by (rule_tac stepsD)
  obtain r' w'' where f: "fin w' = (r', w'')" by (cases "fin w'")
  with assms(3) have "R w' w''" by (rule_tac stepsD)
  with 1 assms(1) have "R w w''" by (blast dest: transpD)
  with m f show "R w (snd (try_finally m fin w))"
    by (cases r') (simp_all add: try_finally_def)
qed

lemma seq_returns:
  assumes "seq m f w = (Inr y, w2)"
  obtains x w1 where "m w = (Inr x, w1)" "f x w1 = (Inr y, w2)"
  using assms by (auto simp: seq_def split: prod.splits sum.splits)

lemma try_finally_returns:
  assumes "try_finally m fin w = (Inr y, w2)"
  obtains w1 where "m w = (Inr y, w1)" "fin w1 = (Inr (), w2)"
  using assms by (auto simp: try_finally_def split: prod.splits sum.splits)

lemma emit_simps [simp]:
  "trace (emit a w) = trace w @ [a]"
  "database (emit a w) = database w"
  "current_session_id (emit a w) = current_session_id w"
  "now_calls (emit a w) = now_calls w"
  "config_manager (emit a w) = config_manager w"
  "stdin (emit a w) = stdin w"
  by (simp_all add: emit_def)

lemma seq_ret: "seq (ret x) f w = f x w"
  by (simp add: seq_def ret_def)

lemma seq_throw: "seq (throw e) f w = (Inl e, w)"
  by (simp add: seq_def throw_def)

lemma seq_py_print: "seq (py_print l) f w = f () (emit (Print l) w)"
  by (simp add: seq_def py_print_def)

lemma seq_generate_session_id:
  "seq (generate_session_id env) f w =
     f (train_session_id (clock env (now_calls w)))
       ((emit (GenerateSessionId (train_session_id (clock env (now_calls w)))) w)
          \<lparr>current_session_id := Some (train_session_id (clock env (now_calls w))),
           now_calls := Suc (now_calls w)\<rparr>)"
  by (simp add: seq_def generate_session_id_def Let_def)

lemma seq_db_call:
  "database w = Some d \<Longrightarrow> m d = (Inr x, d') \<Longrightarrow>
     seq (db_call a m) f w = f x ((emit a w)\<lparr>database := Some d'\<rparr>)"
  by (simp add: seq_def db_call_def)

lemma seq_db_call_raises:
  "database w = Some d \<Longrightarrow> m d = (Inl e, d') \<Longrightarrow>
     seq (db_call a m) f w = (Inl e, (emit a w)\<lparr>database := Some d'\<rparr>)"
  by (simp add: seq_def db_call_def)

subsection \<open>What each method keeps\<close>

lemma reflp_keeps: "reflp keeps"
  by (simp add: reflp_def keeps_def)

lemma transp_keeps: "transp keeps"
  by (auto simp add: transp_def keeps_def)

lemmas keeps_seq = steps_seq [OF transp_keeps]
lemmas keeps_ret = steps_ret [OF reflp_keeps]
lemmas keeps_throw = steps_throw [OF reflp_keeps]
lemmas keeps_try_except = steps_try_except [OF transp_keeps]
lemmas keeps_try_finally = steps_try_finally [OF transp_keeps]

lemma keeps_py_print: "steps keeps (py_print l)"
  by (simp add: steps_def keeps_def py_print_def)

lemma keeps_py_input: "steps keeps (py_input p)"
  by (simp add: steps_def keeps_def py_input_def split: list.split)

lemma keeps_db_call: "steps keeps (db_call a m)"
  by (simp add: steps_def keeps_def db_call_def split: option.split prod.split)

lemma keeps_call_opaque: "steps keeps (call_opaque env c)"
  by (simp add: steps_def keeps_def call_opaque_def)

lemma keeps_get_config: "steps keeps get_config"
  by (simp add: steps_def keeps_def get_config_def split: option.split)

lemma keeps_end_current_session: "steps keeps (end_current_session env st)"
  by (simp add: steps_def keeps_def end_current_session_def db_call_def ret_def
        split: option.split prod.split)

lemmas keeps_intros =
  steps_if keeps_seq keeps_ret keeps_throw keeps_try_except keeps_try_finally keeps_py_print
  keeps_py_input keeps_db_call keeps_call_opaque keeps_get_config keeps_end_current_session

lemma keeps_read_config: "steps keeps (read_config env)"
  unfolding read_config_def by (intro keeps_intros)

lemma keeps_build_config_dict: "steps keeps (build_config_dict env config)"
  unfolding build_config_dict_def by (cases config) (simp_all add: keeps_intros)

lemma keeps_register_session: "steps keeps (register_session env sid config)"
  unfolding register_session_def by (intro keeps_intros keeps_build_config_dict)

lemma keeps_training_body: "steps keeps (training_body env sid)"
  unfolding training_body_def run_engine_def by (intro keeps_intros)

lemma keeps_guarded_run: "steps keeps (guarded_run env sid)"
  unfolding guarded_run_def training_failed_def close_session_def
  by (intro keeps_intros keeps_training_body)

lemma keeps_start_deployment: "steps keeps (start_deployment env)"
  unfolding start_deployment_def deployment_body_def by (intro keeps_intros)


subsection \<open>What each method adds to the trace\<close>

lemma reflp_adds: "reflp (adds Q)"
  by (simp add: reflp_def adds_def)

lemma transp_adds: "transp (adds Q)"
  unfolding transp_def adds_def by (metis append.assoc list_all_append)

lemma adds_mono: "adds Q w w' \<Longrightarrow> (\<And>a. Q a \<Longrightarrow> Q' a) \<Longrightarrow> adds Q' w w'"
  unfolding adds_def list_all_iff by blast

lemmas adds_seq = steps_seq [OF transp_adds]
lemmas adds_ret = steps_ret [OF reflp_adds]
lemmas adds_throw = steps_throw [OF reflp_adds]
lemmas adds_try_except = steps_try_except [OF transp_adds]
lemmas adds_try_finally = steps_try_finally [OF transp_adds]

lemma adds_py_print: "Q (Print l) \<Longrightarrow> steps (adds Q) (py_print l)"
  by (simp add: steps_def adds_def py_print_def)

lemma adds_py_input: "Q (Input p) \<Longrightarrow> steps (adds Q) (py_input p)"
  by (simp add: steps_def adds_def py_input_def split: list.split)

lemma adds_db_call: "Q a \<Longrightarrow> steps (adds Q) (db_call a m)"
  by (simp add: steps_def adds_def db_call_def split: option.split prod.split)

lemma adds_call_opaque: "Q (Opaque c) \<Longrightarrow> steps (adds Q) (call_opaque env c)"
  by (simp add: steps_def adds_def call_opaque_def)

lemma adds_get_config: "Q GetConfig \<Longrightarrow> steps (adds Q) get_config"
  by (simp add: steps_def adds_def get_config_def split: option.split)

lemma adds_end_current_session:
  "(\<And>sid. Q (DbEndSession sid [(''status'', st)])) \<Longrightarrow> steps (adds Q) (end_current_session env st)"
  by (simp add: steps_def adds_def end_current_session_def db_call_def ret_def
        split: option.split prod.split)

lemmas adds_intros =
  steps_if adds_seq adds_ret adds_throw adds_try_except adds_try_finally adds_py_print
  adds_py_input adds_db_call adds_call_opaque adds_get_config adds_end_current_session

lemma adds_shutdown:
  assumes "\<And>l. Q (Print l)" "\<And>sid. Q (DbEndSession sid [(''status'', ''stopped'')])" "Q DbClose"
  shows "steps (adds Q) (shutdown env)"
  unfolding shutdown_def by (intro adds_intros steps_cond assms)

lemma adds_training_body:
  assumes "\<And>l. Q (Print l)" "\<And>c. Q (Opaque c)"
  shows "steps (adds Q) (training_body env sid)"
  unfolding training_body_def run_engine_def by (intro adds_intros assms)

lemma adds_guarded_run:
  assumes "\<And>l. Q (Print l)" "\<And>c. Q (Opaque c)" "\<And>m. Q (DbLogEvent ''ERROR'' ''launcher'' m)"
    "\<And>s. Q (DbEndSession s [(''status'', ''completed'')])"
  shows "steps (adds Q) (guarded_run env sid)"
  unfolding guarded_run_def training_failed_def close_session_def
  by (intro adds_intros adds_training_body assms)

lemma adds_read_config:
  assumes "\<And>l. Q (Print l)" "Q GetConfig"
  shows "steps (adds Q) (read_config env)"
  unfolding read_config_def by (intro adds_intros assms)

lemma adds_build_config_dict: "steps (adds Q) (build_config_dict env config)"
  unfolding build_config_dict_def by (cases config) (simp_all add: adds_intros)

lemma adds_register_session:
  assumes "\<And>c. Q (DbStartSession sid c)" "\<And>m. Q (DbLogEvent ''INFO'' ''launcher'' m)"
  shows "steps (adds Q) (register_session env sid config)"
  unfolding register_session_def by (intro adds_intros adds_build_config_dict assms)

lemma adds_generate_session_id:
  assumes "\<And>s. Q (GenerateSessionId s)"
  shows "steps (adds Q) (generate_session_id env)"
  using assms by (simp add: steps_def adds_def generate_session_id_def Let_def)

lemma adds_start_training:
  assumes "\<And>l. Q (Print l)" "\<And>c. Q (Opaque c)" "\<And>m. Q (DbLogEvent ''ERROR'' ''launcher'' m)"
    "\<And>s. Q (DbEndSession s [(''status'', ''completed'')])" "Q GetConfig"
    "\<And>s c. Q (DbStartSession s c)" "\<And>m. Q (DbLogEvent ''INFO'' ''launcher'' m)"
    "\<And>s. Q (GenerateSessionId s)"
  shows "steps (adds Q) (start_training env)"
  unfolding start_training_def
  by (intro adds_intros adds_generate_session_id adds_read_config adds_register_session
        adds_guarded_run assms)

lemma adds_start_deployment:
  assumes "\<And>l. Q (Print l)" "\<And>c. Q (Opaque c)" "\<And>p. Q (Input p)"
  shows "steps (adds Q) (start_deployment env)"
  unfolding start_deployment_def deployment_body_def by (intro adds_intros assms)

subsection \<open>The state of the database object\<close>

lemma reflp_same_database: "reflp same_database"
  by (simp add: reflp_def same_database_def)

lemma transp_same_database: "transp same_database"
  by (simp add: transp_def same_database_def)

lemma same_database_py_print: "steps same_database (py_print l)"
  by (simp add: steps_def same_database_def py_print_def)

lemma same_database_py_input: "steps same_database (py_input p)"
  by (simp add: steps_def same_database_def py_input_def split: list.split)

lemma same_database_call_opaque:
  "(\<And>k d. opaque_writes env c k d = d) \<Longrightarrow> steps same_database (call_opaque env c)"
proof -
  assume "\<And>k d. opaque_writes env c k d = d"
  then have "opaque_writes env c k = id" for k
    by (intro ext) simp
  then show ?thesis
    by (simp add: steps_def same_database_def call_opaque_def option.map_id)
qed

lemma same_database_start_deployment:
  assumes "\<And>c k d. opaque_writes env c k d = d"
  shows "steps same_database (start_deployment env)"
  unfolding start_deployment_def deployment_body_def
  by (intro steps_if steps_seq [OF transp_same_database] steps_ret [OF reflp_same_database]
        steps_try_except [OF transp_same_database] same_database_py_print
        same_database_py_input same_database_call_opaque assms)

subsection \<open>Projections of the trace\<close>

lemma addsD: "adds Q w w' \<Longrightarrow> trace w' = trace w @ added w w' \<and> list_all Q (added w w')"
  by (auto simp: adds_def added_def)

lemma map_filter_append: "List.map_filter f (xs @ ys) = List.map_filter f xs @ List.map_filter f ys"
  by (simp add: List.map_filter_def)

lemma map_filter_none: "list_all (\<lambda>a. f a = None) xs \<Longrightarrow> List.map_filter f xs = []"
  by (induction xs) simp_all


subsection \<open>The menu loop\<close>

lemma launcher_payload_simps [simp]:
  "launcher_payload (Print l)"
  "launcher_payload (Input p)"
  "launcher_payload (GenerateSessionId sid)"
  "launcher_payload GetConfig"
  "launcher_payload (DbStartSession sid cfg)"
  "launcher_payload (DbLogEvent lvl src m)"
  "launcher_payload DbClose"
  "launcher_payload (Opaque c)"
  "launcher_payload (DbEndSession sid [(''status'', ''completed'')])"
  "launcher_payload (DbEndSession sid [(''status'', ''stopped'')])"
  by (simp_all add: launcher_payload_def)

lemma adds_menu_choice:
  assumes "\<And>l. Q (Print l)" "\<And>c. Q (Opaque c)" "\<And>p. Q (Input p)"
    "\<And>m. Q (DbLogEvent ''ERROR'' ''launcher'' m)" "\<And>m. Q (DbLogEvent ''INFO'' ''launcher'' m)"
    "\<And>s. Q (DbEndSession s [(''status'', ''completed'')])"
    "\<And>s. Q (DbEndSession s [(''status'', ''stopped'')])"
    "Q GetConfig" "Q DbClose" "\<And>s c. Q (DbStartSession s c)" "\<And>s. Q (GenerateSessionId s)"
  shows "steps (adds Q) (menu_choice env)"
  unfolding menu_choice_def Let_def
  by (intro adds_intros adds_start_training adds_start_deployment adds_shutdown assms)

lemma adds_menu_round:
  assumes "\<And>l. Q (Print l)" "\<And>c. Q (Opaque c)" "\<And>p. Q (Input p)"
    "\<And>m. Q (DbLogEvent ''ERROR'' ''launcher'' m)" "\<And>m. Q (DbLogEvent ''INFO'' ''launcher'' m)"
    "\<And>s. Q (DbEndSession s [(''status'', ''completed'')])"
    "\<And>s. Q (DbEndSession s [(''status'', ''stopped'')])"
    "Q GetConfig" "Q DbClose" "\<And>s c. Q (DbStartSession s c)" "\<And>s. Q (GenerateSessionId s)"
  shows "adds Q w (snd (menu_round env w))"
proof -
  let ?w0 = "emit (Print MenuBanner) w"
  obtain r w1 where choice: "menu_choice env ?w0 = (r, w1)"
    by (cases "menu_choice env ?w0")
  have 0: "adds Q w ?w0"
    using assms(1) by (simp add: adds_def)
  have "adds Q ?w0 w1"
    using adds_menu_choice [of Q env, OF assms] choice by (rule stepsD)
  with 0 have 1: "adds Q w w1"
    using transp_adds [of Q] by (blast dest: transpD)
  have print: "adds Q w1 (emit (Print l) w1)" for l
    using assms(1) by (simp add: adds_def)
  have "steps (adds Q) (seq (py_print Newline) (\<lambda>_. shutdown env))"
    by (intro adds_intros adds_shutdown assms)
  then have "adds Q w1 (snd (seq (py_print Newline) (\<lambda>_. shutdown env) w1))"
    by (simp add: steps_def)
  with 1 have 2: "adds Q w (snd (seq (py_print Newline) (\<lambda>_. shutdown env) w1))"
    using transp_adds [of Q] by (blast dest: transpD)
  from 1 print have 3: "adds Q w (emit (Print l) w1)" for l
    using transp_adds [of Q] by (blast dest: transpD)
  show ?thesis
    using 1 2 3 choice
    by (auto simp: menu_round_def split: sum.splits prod.splits round.splits)
qed

lemma adds_show_main_menu:
  assumes "\<And>l. Q (Print l)" "\<And>c. Q (Opaque c)" "\<And>p. Q (Input p)"
    "\<And>m. Q (DbLogEvent ''ERROR'' ''launcher'' m)" "\<And>m. Q (DbLogEvent ''INFO'' ''launcher'' m)"
    "\<And>s. Q (DbEndSession s [(''status'', ''completed'')])"
    "\<And>s. Q (DbEndSession s [(''status'', ''stopped'')])"
    "Q GetConfig" "Q DbClose" "\<And>s c. Q (DbStartSession s c)" "\<And>s. Q (GenerateSessionId s)"
  shows "adds Q w (snd (show_main_menu n env w))"
proof (induction n arbitrary: w)
  case 0
  show ?case by (simp add: adds_def)
next
  case (Suc n)
  obtain r w1 where round: "menu_round env w = (r, w1)"
    by (cases "menu_round env w")
  have 1: "adds Q w w1"
    using adds_menu_round [of Q w env, OF assms] round by simp
  show ?case
  proof (cases r)
    case Continue
    with round have "show_main_menu (Suc n) env w = show_main_menu n env w1" by simp
    with 1 Suc.IH [of w1] show ?thesis
      using transp_adds [of Q] by (auto dest: transpD)
  next
    case Break
    with round 1 show ?thesis by simp
  next
    case (Propagate e)
    with round 1 show ?thesis by simp
  qed
qed

lemma end_payloads_adds:
  assumes "adds launcher_payload w w'"
  shows "set (end_payloads (trace w')) \<subseteq>
     set (end_payloads (trace w)) \<union> {[(''status'', ''completed'')], [(''status'', ''stopped'')]}"
proof -
  from assms obtain tr where tr: "trace w' = trace w @ tr" "list_all launcher_payload tr"
    by (auto simp: adds_def)
  have "set (List.map_filter end_payload tr) \<subseteq> {[(''status'', ''completed'')], [(''status'', ''stopped'')]}"
    using tr(2) by (auto simp: List.map_filter_def list_all_iff launcher_payload_def)
  with tr(1) show ?thesis
    by (auto simp: end_payloads_def map_filter_append)
qed

lemma snd_try_finally: "snd (try_finally m fin w) = snd (fin (snd (m w)))"
  by (simp add: try_finally_def split: prod.splits sum.splits)

lemma added_append: "trace w' = trace w @ tr \<Longrightarrow> added w w' = tr"
  by (simp add: added_def)

lemma guarded_run_closes:
  assumes "DATABASE_AVAILABLE env" "database w \<noteq> None" "current_session_id w = Some sid'" "sid' \<noteq> []"
  shows "\<exists>tr. added w (snd (guarded_run env sid w)) = tr @ [DbEndSession sid' [(''status'', ''completed'')]] \<and>
     list_all (\<lambda>a. end_payload a = None) tr"
proof -
  let ?body = "try_except (training_body env sid) is_Exception (training_failed env)"
  let ?w1 = "snd (?body w)"
  have "steps keeps ?body"
    unfolding training_failed_def by (intro keeps_intros keeps_training_body)
  then have "keeps w ?w1" by (simp add: steps_def)
  with assms have w1: "database ?w1 \<noteq> None" "current_session_id ?w1 = Some sid'"
    by (simp_all add: keeps_def)
  have "steps (adds (\<lambda>a. end_payload a = None)) ?body"
    unfolding training_failed_def by (intro adds_intros adds_training_body) simp_all
  then have "adds (\<lambda>a. end_payload a = None) w ?w1" by (simp add: steps_def)
  then obtain tr where tr: "trace ?w1 = trace w @ tr" "list_all (\<lambda>a. end_payload a = None) tr"
    by (auto simp: adds_def)
  have "trace (snd (close_session env ?w1)) = trace ?w1 @ [DbEndSession sid' [(''status'', ''completed'')]]"
    using assms(1,4) w1
    by (auto simp: close_session_def end_current_session_def db_call_def split: prod.splits)
  with tr have "trace (snd (guarded_run env sid w)) = trace w @ tr @ [DbEndSession sid' [(''status'', ''completed'')]]"
    by (simp add: guarded_run_def snd_try_finally)
  then have "added w (snd (guarded_run env sid w)) = tr @ [DbEndSession sid' [(''status'', ''completed'')]]"
    by (rule added_append)
  with tr(2) show ?thesis by blast
qed

lemma shutdown_stops:
  assumes "database w \<noteq> None" "current_session_id w = Some sid" "sid \<noteq> []"
  shows "end_payloads (added w (snd (shutdown env w))) = [[(''status'', ''stopped'')]]"
proof -
  let ?w0 = "emit (Print ShuttingDown) w"
  obtain d where d: "database w = Some d" using assms(1) by auto
  obtain r d1 where e: "end_training_session (db env) sid [(''status'', ''stopped'')] d = (r, d1)"
    by (cases "end_training_session (db env) sid [(''status'', ''stopped'')] d")
  obtain r' d2 where c: "close (db env) d1 = (r', d2)"
    by (cases "close (db env) d1")
  have "trace (snd (shutdown env w)) = trace w @ [Print ShuttingDown, DbEndSession sid [(''status'', ''stopped'')]]
    \<or> trace (snd (shutdown env w)) = trace w @ [Print ShuttingDown, DbEndSession sid [(''status'', ''stopped'')], DbClose]
    \<or> trace (snd (shutdown env w)) = trace w @ [Print ShuttingDown, DbEndSession sid [(''status'', ''stopped'')], DbClose, Print ShutdownComplete]"
    using assms d e c
    by (cases r; cases r')
      (simp_all add: shutdown_def seq_py_print end_current_session_def seq_def db_call_def py_print_def)
  then show ?thesis
    by (elim disjE) (simp_all add: added_def end_payloads_def)
qed


subsection \<open>The guarded run\<close>

lemma snd_try_except_caught:
  "m w = (Inl e, w1) \<Longrightarrow> c e \<Longrightarrow> try_except m c h w = h e w1"
  by (simp add: try_except_def)

lemma snd_try_except_uncaught:
  "m w = (Inl e, w1) \<Longrightarrow> \<not> c e \<Longrightarrow> try_except m c h w = (Inl e, w1)"
  by (simp add: try_except_def)

lemma trace_close_session:
  assumes "DATABASE_AVAILABLE env" "database w \<noteq> None" "current_session_id w = Some sid" "sid \<noteq> []"
  shows "trace (snd (close_session env w)) = trace w @ [DbEndSession sid [(''status'', ''completed'')]]"
  using assms
  by (auto simp: close_session_def end_current_session_def db_call_def split: prod.splits)

lemma training_failed_run:
  assumes "DATABASE_AVAILABLE env" "database w \<noteq> None"
  shows "keeps w (snd (training_failed env e w)) \<and>
     trace (snd (training_failed env e w)) =
       trace w @ [Print (TrainingStartFailed (str_exn e)),
                  DbLogEvent ''ERROR'' ''launcher'' (training_failed_prefix @ str_exn e)]"
  using assms
  by (auto simp: training_failed_def seq_py_print db_call_def keeps_def split: prod.splits)


subsection \<open>The start of a training run\<close>

lemma start_training_unfold:
  assumes "TRAFFIC_SYSTEM_AVAILABLE env"
  shows "start_training env w =
     seq (read_config env) (\<lambda>config.
       seq (register_session env (train_session_id (clock env (now_calls w))) config) (\<lambda>_.
         guarded_run env (train_session_id (clock env (now_calls w)))))
       ((emit (GenerateSessionId (train_session_id (clock env (now_calls w))))
           (emit (Print TrainingHeader) w))
          \<lparr>current_session_id := Some (train_session_id (clock env (now_calls w))),
           now_calls := Suc (now_calls w)\<rparr>)"
  using assms by (simp add: start_training_def seq_py_print seq_generate_session_id)

lemma read_config_cases:
  obtains (raises) e where "read_config env w = (Inl e, w)"
  | (absent) "\<not> CONFIG_AVAILABLE env" "read_config env w = (Inr None, w)"
  | (present) c where "CONFIG_AVAILABLE env" "config_manager w = Some c"
      "read_config env w = (Inr (Some c), emit (Print UsingConfigFile) (emit GetConfig w))"
  by (cases "CONFIG_AVAILABLE env"; cases "config_manager w")
    (auto simp: read_config_def get_config_def seq_def py_print_def ret_def)

lemma register_session_trace:
  assumes "DATABASE_AVAILABLE env" "database w \<noteq> None"
    "config_dict = (if CONFIG_AVAILABLE env then config_dict_of c else [])"
    "CONFIG_AVAILABLE env \<longrightarrow> config = Some c"
  shows "\<exists>r w'. register_session env sid config w = (r, w') \<and> keeps w w' \<and>
     (trace w' = trace w @ [DbStartSession sid config_dict] \<and> (\<exists>e. r = Inl e) \<or>
      trace w' = trace w @ [DbStartSession sid config_dict,
         DbLogEvent ''INFO'' ''launcher'' (session_started_prefix @ sid)])"
proof -
  obtain d where d: "database w = Some d" using assms(2) by auto
  obtain r1 d1 where s: "start_training_session (db env) sid config_dict d = (r1, d1)"
    by (cases "start_training_session (db env) sid config_dict d")
  obtain r2 d2 where l: "log_event (db env) ''INFO'' ''launcher'' (session_started_prefix @ sid) d1 = (r2, d2)"
    by (cases "log_event (db env) ''INFO'' ''launcher'' (session_started_prefix @ sid) d1")
  have b: "build_config_dict env config = ret config_dict"
    using assms(3,4) by (auto simp: build_config_dict_def)
  show ?thesis
  proof (cases r1)
    case (Inl e)
    with assms(1) d s b have "register_session env sid config w =
        (Inl e, (emit (DbStartSession sid config_dict) w)\<lparr>database := Some d1\<rparr>)"
      by (simp add: register_session_def seq_ret seq_db_call_raises)
    then show ?thesis
      using d by (simp add: keeps_def)
  next
    case (Inr u)
    with assms(1) d s l b have "register_session env sid config w =
        (r2, (emit (DbLogEvent ''INFO'' ''launcher'' (session_started_prefix @ sid))
                ((emit (DbStartSession sid config_dict) w)\<lparr>database := Some d1\<rparr>))
               \<lparr>database := Some d2\<rparr>)"
      by (simp add: register_session_def seq_ret seq_db_call [where d = d and d' = d1] db_call_def)
    then show ?thesis
      using d by (simp add: keeps_def)
  qed
qed

lemma added_guarded_run:
  assumes "\<And>l. Q (Print l)" "\<And>c. Q (Opaque c)" "\<And>m. Q (DbLogEvent ''ERROR'' ''launcher'' m)"
    "\<And>s. Q (DbEndSession s [(''status'', ''completed'')])"
  obtains tr where "trace (snd (guarded_run env sid w)) = trace w @ tr" "list_all Q tr"
  using adds_guarded_run [of Q env sid, OF assms] by (auto simp: steps_def adds_def)


subsection \<open>The order of the steps\<close>

lemma emitsI: "trace w' = trace w @ tr \<Longrightarrow> P (steps_taken tr) \<Longrightarrow> emits P w w'"
  by (auto simp: emits_def)

lemma steps_taken_append: "steps_taken (xs @ ys) = steps_taken xs @ steps_taken ys"
  by (simp add: steps_taken_def map_filter_append)

lemma steps_taken_quiet: "list_all (\<lambda>a. step_of a = None) tr \<Longrightarrow> steps_taken tr = []"
  by (simp add: steps_taken_def map_filter_none)

lemma subseq_Nil_iff: "subseq l [] \<longleftrightarrow> l = []"
  by (auto dest: list_emb_Nil2)

lemma emits_weaken: "steps (emits P) m \<Longrightarrow> (\<And>l. P l \<Longrightarrow> P' l) \<Longrightarrow> steps (emits P') m"
  by (auto simp: steps_def emits_def)

lemma quiet_emits:
  assumes "steps (adds (\<lambda>a. step_of a = None)) m"
  shows "steps (emits (\<lambda>l. subseq l [])) m"
proof (rule stepsI)
  fix w
  from assms obtain tr where "trace (snd (m w)) = trace w @ tr" "list_all (\<lambda>a. step_of a = None) tr"
    by (auto simp: steps_def adds_def)
  then show "emits (\<lambda>l. subseq l []) w (snd (m w))"
    by (intro emitsI [of _ _ tr]) (simp_all add: steps_taken_quiet)
qed

lemma emits_trans:
  assumes "emits P1 w w'" "emits P2 w' w''" "\<And>a b. P1 a \<Longrightarrow> P2 b \<Longrightarrow> P3 (a @ b)"
  shows "emits P3 w w''"
proof -
  from assms(1) obtain tr1 where 1: "trace w' = trace w @ tr1" "P1 (steps_taken tr1)"
    by (auto simp: emits_def)
  from assms(2) obtain tr2 where 2: "trace w'' = trace w' @ tr2" "P2 (steps_taken tr2)"
    by (auto simp: emits_def)
  from 1 2 have "trace w'' = trace w @ (tr1 @ tr2)" by simp
  moreover from 1 2 assms(3) have "P3 (steps_taken (tr1 @ tr2))"
    by (simp add: steps_taken_append)
  ultimately show ?thesis by (rule emitsI)
qed

lemma emits_seq:
  assumes "steps (emits P1) m" "\<And>x. steps (emits P2) (f x)"
    "\<And>a. P1 a \<Longrightarrow> P3 a" "\<And>a b. P1 a \<Longrightarrow> P2 b \<Longrightarrow> P3 (a @ b)"
  shows "steps (emits P3) (seq m f)"
proof (rule stepsI)
  fix w
  obtain r w' where m: "m w = (r, w')" by (cases "m w")
  with assms(1) have 1: "emits P1 w w'" by (rule_tac stepsD)
  show "emits P3 w (snd (seq m f w))"
  proof (cases r)
    case (Inl e)
    from 1 assms(3) have "emits P3 w w'" by (auto simp: emits_def)
    with m Inl show ?thesis by (simp add: seq_def)
  next
    case (Inr x)
    obtain r' w'' where f: "f x w' = (r', w'')" by (cases "f x w'")
    with assms(2) have "emits P2 w' w''" by (rule_tac stepsD)
    with 1 have "emits P3 w w''" using assms(4) by (rule emits_trans)
    with m Inr f show ?thesis by (simp add: seq_def)
  qed
qed

lemma emits_seq_subseq:
  assumes "steps (emits (\<lambda>l. subseq l S1)) m" "\<And>x. steps (emits (\<lambda>l. subseq l S2)) (f x)"
  shows "steps (emits (\<lambda>l. subseq l (S1 @ S2))) (seq m f)"
  using assms
proof (rule emits_seq)
  fix a b :: "step list"
  assume a: "subseq a S1"
  then show "subseq a (S1 @ S2)" by (rule subseq_rev_drop_many)
  assume "subseq b S2"
  with a show "subseq (a @ b) (S1 @ S2)" by (rule list_emb_append_mono)
qed

lemma emits_then_quiet:
  assumes "emits P w w'" "emits (\<lambda>l. subseq l []) w' w''"
  shows "emits P w w''"
  using assms by (rule emits_trans) (simp add: subseq_Nil_iff)

lemma emits_try_except:
  assumes "steps (emits P) m" "\<And>e. steps (emits (\<lambda>l. subseq l [])) (h e)"
  shows "steps (emits P) (try_except m c h)"
proof (rule stepsI)
  fix w
  obtain r w' where m: "m w = (r, w')" by (cases "m w")
  with assms(1) have 1: "emits P w w'" by (rule_tac stepsD)
  show "emits P w (snd (try_except m c h w))"
  proof (cases r)
    case (Inr x)
    with m 1 show ?thesis by (simp add: try_except_def)
  next
    case (Inl e)
    have "emits (\<lambda>l. subseq l []) w' (snd (h e w'))"
      using assms(2) [of e] by (simp add: steps_def)
    with 1 have "emits P w (snd (h e w'))" by (rule emits_then_quiet)
    with m Inl 1 show ?thesis by (simp add: try_except_def)
  qed
qed

lemma emits_try_finally:
  assumes "steps (emits P) m" "steps (emits (\<lambda>l. subseq l [])) fin"
  shows "steps (emits P) (try_finally m fin)"
proof (rule stepsI)
  fix w
  have "emits P w (snd (m w))"
    using assms(1) by (simp add: steps_def)
  moreover have "emits (\<lambda>l. subseq l []) (snd (m w)) (snd (fin (snd (m w))))"
    using assms(2) by (simp add: steps_def)
  ultimately show "emits P w (snd (try_finally m fin w))"
    unfolding snd_try_finally by (rule emits_then_quiet)
qed

lemma emits_read_config: "steps (emits (\<lambda>l. subseq l [CaptureConfig])) (read_config env)"
proof (rule stepsI)
  fix w :: "('a, 'b) launcher"
  show "emits (\<lambda>l. subseq l [CaptureConfig]) w (snd (read_config env w))"
  proof (cases rule: read_config_cases [of env w])
    case (raises e)
    then show ?thesis by (simp add: emits_def steps_taken_def)
  next
    case absent
    then show ?thesis by (simp add: emits_def steps_taken_def)
  next
    case (present c)
    have "trace (emit (Print UsingConfigFile) (emit GetConfig w)) = trace w @ [GetConfig, Print UsingConfigFile]"
      by simp
    then have "emits (\<lambda>l. subseq l [CaptureConfig]) w (emit (Print UsingConfigFile) (emit GetConfig w))"
      by (rule emitsI) (simp add: steps_taken_def)
    with present show ?thesis by simp
  qed
qed

lemma emits_db_call: "steps (emits (\<lambda>l. subseq l (steps_taken [a]))) (db_call a m)"
proof (rule stepsI)
  fix w :: "('a, 'b) launcher"
  show "emits (\<lambda>l. subseq l (steps_taken [a])) w (snd (db_call a m w))"
  proof (cases "database w")
    case None
    then show ?thesis by (simp add: db_call_def emits_def steps_taken_def)
  next
    case (Some d)
    obtain r d' where "m d = (r, d')" by (cases "m d")
    with Some have "trace (snd (db_call a m w)) = trace w @ [a]"
      by (simp add: db_call_def)
    then show ?thesis by (rule emitsI) (rule subseq_order.refl)
  qed
qed

lemma emits_call_opaque:
  fixes env :: "('a, 'b) env"
  shows "steps (emits (\<lambda>l. subseq l (steps_taken [Opaque c :: 'b action]))) (call_opaque env c)"
proof (rule stepsI)
  fix w :: "('a, 'b) launcher"
  have "trace (snd (call_opaque env c w)) = trace w @ [Opaque c]"
    by (simp add: call_opaque_def)
  then show "emits (\<lambda>l. subseq l (steps_taken [Opaque c :: 'b action])) w (snd (call_opaque env c w))"
    by (rule emitsI) (rule subseq_order.refl)
qed

lemma emits_register_session:
  "steps (emits (\<lambda>l. subseq l [RegisterSession, LogInfoEvent])) (register_session env sid config)"
proof (cases "DATABASE_AVAILABLE env")
  case False
  then show ?thesis
    by (simp add: register_session_def steps_def ret_def emits_def steps_taken_def)
next
  case True
  have "steps (emits (\<lambda>l. subseq l [])) (build_config_dict env config)"
    by (intro quiet_emits adds_build_config_dict)
  moreover have "steps (emits (\<lambda>l. subseq l [RegisterSession, LogInfoEvent]))
      (seq (db_call (DbStartSession sid cd) (start_training_session (db env) sid cd)) (\<lambda>_.
         db_call (DbLogEvent ''INFO'' ''launcher'' (session_started_prefix @ sid))
           (log_event (db env) ''INFO'' ''launcher'' (session_started_prefix @ sid))))" for cd
    using emits_db_call [of "DbStartSession sid cd"]
      emits_db_call [of "DbLogEvent ''INFO'' ''launcher'' (session_started_prefix @ sid)"]
  proof (rule emits_seq)
    fix a b :: "step list"
    assume "subseq a (steps_taken [DbStartSession sid cd])"
    then have a: "subseq a [RegisterSession]" by (simp add: steps_taken_def)
    then have "subseq a ([RegisterSession] @ [LogInfoEvent])"
      by (rule subseq_rev_drop_many)
    then show "subseq a [RegisterSession, LogInfoEvent]" by simp
    assume "subseq b (steps_taken [DbLogEvent ''INFO'' ''launcher'' (session_started_prefix @ sid)])"
    then have "subseq b [LogInfoEvent]" by (simp add: steps_taken_def)
    with a have "subseq (a @ b) ([RegisterSession] @ [LogInfoEvent])"
      by (rule list_emb_append_mono)
    then show "subseq (a @ b) [RegisterSession, LogInfoEvent]" by simp
  qed
  ultimately have "steps (emits (\<lambda>l. subseq l ([] @ [RegisterSession, LogInfoEvent])))
      (seq (build_config_dict env config) (\<lambda>config_dict.
         seq (db_call (DbStartSession sid config_dict)
                (start_training_session (db env) sid config_dict)) (\<lambda>_.
           db_call (DbLogEvent ''INFO'' ''launcher'' (session_started_prefix @ sid))
             (log_event (db env) ''INFO'' ''launcher'' (session_started_prefix @ sid)))))"
    by (rule emits_seq_subseq)
  with True show ?thesis by (simp add: register_session_def)
qed


lemma emits_ret: "steps (emits (\<lambda>l. subseq l [])) (ret x)"
  by (intro quiet_emits adds_ret)

lemma emits_py_print: "steps (emits (\<lambda>l. subseq l [])) (py_print l)"
  by (intro quiet_emits adds_py_print) simp

lemma emits_run_engine:
  fixes env :: "('a, 'b) env"
  assumes "run = RunTraining \<or> run = RunAutoTraining"
  shows "steps (emits (\<lambda>l. subseq l [DelegateRun])) (run_engine env sid k run)"
proof -
  have construct: "steps (emits (\<lambda>l. subseq l [])) (call_opaque env (Construct k))"
    using emits_call_opaque [where env = env and c = "Construct k"]
    by (simp add: steps_taken_def)
  have initialize: "steps (emits (\<lambda>l. subseq l [])) (call_opaque env (Initialize k))"
    using emits_call_opaque [where env = env and c = "Initialize k"]
    by (simp add: steps_taken_def)
  have run: "steps (emits (\<lambda>l. subseq l [DelegateRun])) (call_opaque env run)"
    using assms emits_call_opaque [where env = env and c = run]
    by (auto simp: steps_taken_def)
  have "steps (emits (\<lambda>l. subseq l ([DelegateRun] @ []))) (seq (call_opaque env run) (\<lambda>_. ret ()))"
    by (intro emits_seq_subseq run emits_ret)
  then have 1: "steps (emits (\<lambda>l. subseq l [DelegateRun])) (seq (call_opaque env run) (\<lambda>_. ret ()))"
    by simp
  have "steps (emits (\<lambda>l. subseq l ([] @ [DelegateRun])))
      (seq (py_print (TrainingSessionId sid)) (\<lambda>_. seq (call_opaque env run) (\<lambda>_. ret ())))"
    by (intro emits_seq_subseq emits_py_print 1)
  then have 2: "steps (emits (\<lambda>l. subseq l [DelegateRun]))
      (seq (py_print (TrainingSessionId sid)) (\<lambda>_. seq (call_opaque env run) (\<lambda>_. ret ())))"
    by simp
  have "steps (emits (\<lambda>l. subseq l [DelegateRun])) (ret () :: (('a, 'b) launcher, unit) prog)"
    by (rule emits_weaken [OF emits_ret]) (simp add: subseq_Nil_iff)
  with 2 have 3: "steps (emits (\<lambda>l. subseq l [DelegateRun]))
      (if ok then seq (py_print (TrainingSessionId sid)) (\<lambda>_. seq (call_opaque env run) (\<lambda>_. ret ()))
       else ret ())" for ok
    by simp
  have "steps (emits (\<lambda>l. subseq l ([] @ [DelegateRun])))
      (seq (call_opaque env (Initialize k)) (\<lambda>ok.
        if ok then seq (py_print (TrainingSessionId sid)) (\<lambda>_. seq (call_opaque env run) (\<lambda>_. ret ()))
        else ret ()))"
    by (intro emits_seq_subseq initialize 3)
  then have 4: "steps (emits (\<lambda>l. subseq l [DelegateRun]))
      (seq (call_opaque env (Initialize k)) (\<lambda>ok.
        if ok then seq (py_print (TrainingSessionId sid)) (\<lambda>_. seq (call_opaque env run) (\<lambda>_. ret ()))
        else ret ()))"
    by simp
  have "steps (emits (\<lambda>l. subseq l ([] @ [DelegateRun]))) (run_engine env sid k run)"
    unfolding run_engine_def by (intro emits_seq_subseq construct 4)
  then show ?thesis by simp
qed

lemma emits_guarded_run:
  fixes env :: "('a, 'b) env"
  shows "steps (emits (\<lambda>l. subseq l [DelegateRun])) (guarded_run env sid)"
proof -
  have "steps (emits (\<lambda>l. subseq l [DelegateRun])) (py_print NoTrafficSystemClass :: (('a, 'b) launcher, unit) prog)"
    by (rule emits_weaken [OF emits_py_print]) (simp add: subseq_Nil_iff)
  then have body: "steps (emits (\<lambda>l. subseq l [DelegateRun])) (training_body env sid)"
    unfolding training_body_def by (intro steps_if emits_run_engine) simp_all
  have handler: "steps (emits (\<lambda>l. subseq l [])) (training_failed env e)" for e
    unfolding training_failed_def by (intro quiet_emits adds_intros) simp_all
  have final: "steps (emits (\<lambda>l. subseq l [])) (close_session env)"
    unfolding close_session_def by (intro quiet_emits adds_intros) simp_all
  show ?thesis
    unfolding guarded_run_def
    by (intro emits_try_finally emits_try_except body handler final)
qed

lemma emits_start_training_rest:
  "steps (emits (\<lambda>l. subseq l [CaptureConfig, RegisterSession, LogInfoEvent, DelegateRun]))
     (seq (read_config env) (\<lambda>config.
        seq (register_session env sid config) (\<lambda>_. guarded_run env sid)))"
proof -
  have 1: "steps (emits (\<lambda>l. subseq l ([RegisterSession, LogInfoEvent] @ [DelegateRun])))
      (seq (register_session env sid config) (\<lambda>_. guarded_run env sid))" for config
    using emits_register_session emits_guarded_run by (rule emits_seq_subseq)
  have "steps (emits (\<lambda>l. subseq l ([CaptureConfig] @ [RegisterSession, LogInfoEvent] @ [DelegateRun])))
     (seq (read_config env) (\<lambda>config.
        seq (register_session env sid config) (\<lambda>_. guarded_run env sid)))"
    using emits_read_config 1 by (rule emits_seq_subseq)
  then show ?thesis by simp
qed

lemma run_engine_runs:
  assumes "\<forall>n x. \<exists>b. opaque_result env (Construct k) n x = Inr b"
    and "\<forall>n x. opaque_result env (Initialize k) n x = Inr True"
  shows "trace (snd (run_engine env sid k run w)) =
     trace w @ [Opaque (Construct k), Opaque (Initialize k), Print (TrainingSessionId sid), Opaque run]"
proof -
  from assms(1) obtain b where "opaque_result env (Construct k) (length (trace w)) (database w) = Inr b"
    by blast
  then have 1: "seq (call_opaque env (Construct k)) f w =
      f b ((emit (Opaque (Construct k)) w)
             \<lparr>database := map_option (opaque_writes env (Construct k) (length (trace w))) (database w)\<rparr>)" for f
    by (simp add: seq_def call_opaque_def)
  have 2: "seq (call_opaque env (Initialize k)) f w' =
      f True ((emit (Opaque (Initialize k)) w')
             \<lparr>database := map_option (opaque_writes env (Initialize k) (length (trace w'))) (database w')\<rparr>)"
    for f and w' :: "('a, 'b) launcher"
    using assms(2) by (simp add: seq_def call_opaque_def)
  show ?thesis
    by (simp add: run_engine_def 1 2 seq_py_print)
      (simp add: seq_def call_opaque_def ret_def split: sum.split)
qed

lemma training_body_runs:
  assumes "has_IntegratedTrafficSystem env \<or> has_AutoSmartTrafficSystem env"
    and "\<forall>k n x. \<exists>b. opaque_result env (Construct k) n x = Inr b"
    and "\<forall>k n x. opaque_result env (Initialize k) n x = Inr True"
  shows "\<exists>tr. trace (snd (training_body env sid w)) = trace w @ tr \<and> steps_taken tr = [DelegateRun]"
proof (cases "has_IntegratedTrafficSystem env")
  case True
  then have "trace (snd (training_body env sid w)) =
     trace w @ [Opaque (Construct IntegratedTrafficSystem), Opaque (Initialize IntegratedTrafficSystem),
       Print (TrainingSessionId sid), Opaque RunTraining]"
    using assms(2,3) by (simp add: training_body_def run_engine_runs)
  then show ?thesis by (simp add: steps_taken_def)
next
  case False
  with assms(1) have "trace (snd (training_body env sid w)) =
     trace w @ [Opaque (Construct AutoSmartTrafficSystem), Opaque (Initialize AutoSmartTrafficSystem),
       Print (TrainingSessionId sid), Opaque RunAutoTraining]"
    using assms(2,3) by (simp add: training_body_def run_engine_runs)
  then show ?thesis by (simp add: steps_taken_def)
qed

lemma guarded_run_after_body:
  "emits (\<lambda>l. subseq l []) (snd (training_body env sid w)) (snd (guarded_run env sid w))"
proof -
  obtain r w' where body: "training_body env sid w = (r, w')"
    by (cases "training_body env sid w")
  have handler: "emits (\<lambda>l. subseq l []) w' (snd (training_failed env e w'))" for e
  proof -
    have "steps (emits (\<lambda>l. subseq l [])) (training_failed env e)"
      unfolding training_failed_def by (intro quiet_emits adds_intros) simp_all
    then show ?thesis by (simp add: steps_def)
  qed
  have same: "emits (\<lambda>l. subseq l []) w' w'"
    by (simp add: emits_def steps_taken_def)
  let ?w1 = "snd (try_except (training_body env sid) is_Exception (training_failed env) w)"
  have 1: "emits (\<lambda>l. subseq l []) w' ?w1"
    using body handler same by (cases r) (simp_all add: try_except_def)
  have "steps (emits (\<lambda>l. subseq l [])) (close_session env)"
    unfolding close_session_def by (intro quiet_emits adds_intros) simp_all
  then have "emits (\<lambda>l. subseq l []) ?w1 (snd (close_session env ?w1))"
    by (simp add: steps_def)
  with 1 have "emits (\<lambda>l. subseq l []) w' (snd (close_session env ?w1))"
    by (rule emits_then_quiet)
  with body show ?thesis
    by (simp add: guarded_run_def snd_try_finally)
qed


subsection \<open>The telemetry store\<close>

lemma status_of_result_terminal: "status_of_result r = Some st \<Longrightarrow> st \<noteq> Running"
  by (auto simp: status_of_result_def split: option.splits if_splits)

lemma sessions_log_record [simp]: "sessions (log_record lvl src m ref s) = sessions s"
  by (simp add: log_record_def)

lemma get_session_log_record [simp]: "get_session sid (log_record lvl src m ref s) = get_session sid s"
  by (simp add: get_session_def)

lemma end_session_not_running:
  assumes "not_running sid s"
  shows "end_session sid r s = (Inr (), log_record ''WARNING'' ''database'' ''end_session ignored'' (Some sid) s)"
  using assms by (auto simp: not_running_def end_session_def split: option.splits)

lemma not_running_end_session:
  assumes "status_of_result r \<noteq> None"
  shows "not_running sid (snd (end_session sid r s))"
proof (cases "get_session sid s")
  case None
  then show ?thesis by (simp add: end_session_def not_running_def)
next
  case (Some ses)
  show ?thesis
  proof (cases "status ses = Running")
    case False
    with Some show ?thesis by (simp add: end_session_def not_running_def)
  next
    case True
    from assms obtain st where st: "status_of_result r = Some st" by auto
    then have "st \<noteq> Running" by (rule status_of_result_terminal)
    with Some True st show ?thesis
      by (simp add: end_session_def not_running_def get_session_def update_conv')
  qed
qed

lemma end_training_session_store:
  "end_training_session store_api sid r s = surface (end_session sid r s)"
  by (simp add: store_api_def)

lemma surface_Inr: "surface (Inr x, s) = (Inr x, s)"
  by (simp add: surface_def)

lemma training_returns:
  assumes "TRAFFIC_SYSTEM_AVAILABLE env" "DATABASE_AVAILABLE env" "start_training env w = (Inr (), w1)"
  obtains w' d d1 where "current_session_id w' = Some (train_session_id (clock env (now_calls w)))"
    "database w' = Some d"
    "end_training_session (db env) (train_session_id (clock env (now_calls w)))
       [(''status'', ''completed'')] d = (Inr (), d1)"
    "w1 = (emit (DbEndSession (train_session_id (clock env (now_calls w))) [(''status'', ''completed'')]) w')
            \<lparr>database := Some d1\<rparr>"
proof -
  let ?sid = "train_session_id (clock env (now_calls w))"
  let ?w2 = "(emit (GenerateSessionId ?sid) (emit (Print TrainingHeader) w))
          \<lparr>current_session_id := Some ?sid, now_calls := Suc (now_calls w)\<rparr>"
  from assms(3) have "seq (read_config env) (\<lambda>config.
       seq (register_session env ?sid config) (\<lambda>_. guarded_run env ?sid)) ?w2 = (Inr (), w1)"
    by (simp add: start_training_unfold [OF assms(1)])
  then obtain config w3 where rc: "read_config env ?w2 = (Inr config, w3)"
    and "seq (register_session env ?sid config) (\<lambda>_. guarded_run env ?sid) w3 = (Inr (), w1)"
    by (rule seq_returns)
  then obtain u w4 where reg: "register_session env ?sid config w3 = (Inr u, w4)"
    and "guarded_run env ?sid w4 = (Inr (), w1)"
    by (elim seq_returns)
  then obtain w' where body: "try_except (training_body env ?sid) is_Exception (training_failed env) w4 = (Inr (), w')"
    and fin: "close_session env w' = (Inr (), w1)"
    unfolding guarded_run_def by (elim try_finally_returns)
  have "keeps ?w2 w3" using keeps_read_config rc by (rule stepsD)
  moreover have "keeps w3 w4" using keeps_register_session reg by (rule stepsD)
  moreover have "steps keeps (try_except (training_body env ?sid) is_Exception (training_failed env))"
    unfolding training_failed_def by (intro keeps_intros keeps_training_body)
  then have "keeps w4 w'" using body by (rule stepsD)
  ultimately have sid: "current_session_id w' = Some ?sid"
    by (simp add: keeps_def)
  have ne: "?sid \<noteq> []" by (rule train_session_id_not_empty)
  from fin assms(2) sid ne
  have call: "db_call (DbEndSession ?sid [(''status'', ''completed'')])
      (end_training_session (db env) ?sid [(''status'', ''completed'')]) w' = (Inr (), w1)"
    by (simp add: close_session_def end_current_session_def)
  then obtain d where d: "database w' = Some d"
    by (cases "database w'") (simp_all add: db_call_def)
  obtain r d1 where e: "end_training_session (db env) ?sid [(''status'', ''completed'')] d = (r, d1)"
    by (cases "end_training_session (db env) ?sid [(''status'', ''completed'')] d")
  with call d have "r = Inr ()"
    and "w1 = (emit (DbEndSession ?sid [(''status'', ''completed'')]) w')\<lparr>database := Some d1\<rparr>"
    by (simp_all add: db_call_def)
  with sid d e show ?thesis by (intro that [of w' d d1]) simp_all
qed


lemma shutdown_returns:
  assumes "database w = Some d" "current_session_id w = Some sid" "sid \<noteq> []"
    and "end_training_session (db env) sid [(''status'', ''stopped'')] d = (Inr (), d1)"
    and "close (db env) d1 = (Inr (), d2)"
  shows "shutdown env w =
     (Inr (),
      w\<lparr>database := Some d2,
        trace := trace w @ [Print ShuttingDown, DbEndSession sid [(''status'', ''stopped'')], DbClose,
                            Print ShutdownComplete]\<rparr>)"
  using assms
  by (simp add: shutdown_def end_current_session_def seq_py_print
      seq_db_call [where d = d and d' = d1] db_call_def py_print_def seq_def emit_def)


lemma signal_handler_exits:
  assumes "database w = Some d" "current_session_id w = Some sid" "sid \<noteq> []"
    and "end_training_session (db env) sid [(''status'', ''stopped'')] d = (Inr (), d1)"
    and "close (db env) d1 = (Inr (), d2)"
  shows "signal_handler env w =
     (Inl (SystemExit 0),
      w\<lparr>database := Some d2,
        trace := trace w @ [Print InterruptReceived, Print ShuttingDown,
                            DbEndSession sid [(''status'', ''stopped'')], DbClose,
                            Print ShutdownComplete]\<rparr>)"
  using assms
  by (simp add: signal_handler_def shutdown_def end_current_session_def seq_py_print
      seq_db_call [where d = d and d' = d1] db_call_def py_print_def seq_def throw_def emit_def)

lemma end_session_running:
  assumes "get_session sid s = Some ses" "status ses = Running" "status_of_result r = Some st"
  shows "end_session sid r s =
     (Inr (),
      s\<lparr>sessions :=
          AList.update sid (ses\<lparr>status := st, end_time := Some (ticks s), result_payload := Some r\<rparr>)
            (sessions s),
        ticks := Suc (ticks s)\<rparr>)"
  using assms by (simp add: end_session_def)

lemma seq_py_input:
  "stdin w = Inr x # rest \<Longrightarrow> seq (py_input p) f w = f x ((emit (Input p) w)\<lparr>stdin := rest\<rparr>)"
  by (simp add: seq_def py_input_def)

section \<open>Session identifiers are distinct across seconds\<close>

text \<open>
  Claim C6. Every session id the launcher generates is \<^verbatim>\<open>train_\<close> followed by the clock
  reading as \<^verbatim>\<open>YYYYMMDD_HHMMSS\<close>, so ids generated at distinct wall-clock seconds differ, and
  \<^verbatim>\<open>start_training\<close> makes that id the current session id.
\<close>

theorem session_id_format:
  "(\<exists>ts. train_session_id d = ''train_'' @ ts \<and> length ts = 15 \<and> ts ! 8 = CHR ''_'') \<and>
   (valid_datetime d1 \<and> valid_datetime d2 \<and> wall_clock_second d1 \<noteq> wall_clock_second d2 \<longrightarrow>
      train_session_id d1 \<noteq> train_session_id d2) \<and>
   (TRAFFIC_SYSTEM_AVAILABLE env \<longrightarrow>
      current_session_id (snd (start_training env w)) = Some (train_session_id (clock env (now_calls w))))"
proof (intro conjI impI)
  show "\<exists>ts. train_session_id d = ''train_'' @ ts \<and> length ts = 15 \<and> ts ! 8 = CHR ''_''"
    by (simp add: train_session_id_def strftime_Ymd_HMS_def pad2_def pad4_def)
next
  assume "valid_datetime d1 \<and> valid_datetime d2 \<and> wall_clock_second d1 \<noteq> wall_clock_second d2"
  then show "train_session_id d1 \<noteq> train_session_id d2"
    using strftime_inj [of d1 d2] by (auto simp: train_session_id_def)
next
  assume avail: "TRAFFIC_SYSTEM_AVAILABLE env"
  let ?sid = "train_session_id (clock env (now_calls w))"
  let ?w1 = "emit (Print TrainingHeader) w"
  let ?w2 = "(emit (GenerateSessionId ?sid) ?w1)\<lparr>current_session_id := Some ?sid, now_calls := Suc (now_calls w)\<rparr>"
  let ?rest = "seq (read_config env) (\<lambda>config. seq (register_session env ?sid config) (\<lambda>_. guarded_run env ?sid))"
  have run: "start_training env w = ?rest ?w2"
    using avail by (simp add: start_training_def seq_py_print seq_generate_session_id)
  have "steps keeps ?rest"
    by (intro keeps_seq keeps_read_config keeps_register_session keeps_guarded_run)
  then have "keeps ?w2 (snd (?rest ?w2))"
    by (simp add: steps_def)
  then show "current_session_id (snd (start_training env w)) = Some ?sid"
    unfolding run by (simp add: keeps_def)
qed

theorem session_id_format_witness:
  "valid_datetime noon \<and> valid_datetime (noon\<lparr>second := 1\<rparr>) \<and>
   wall_clock_second noon \<noteq> wall_clock_second (noon\<lparr>second := 1\<rparr>) \<and>
   train_session_id noon = ''train_20240102_120000'' \<and>
   train_session_id (noon\<lparr>second := 1\<rparr>) = ''train_20240102_120001'' \<and>
   train_session_id noon \<noteq> train_session_id (noon\<lparr>second := 1\<rparr>) \<and>
   TRAFFIC_SYSTEM_AVAILABLE demo_env \<and>
   current_session_id (snd (start_training demo_env (demo_launcher []))) = Some ''train_20240102_030400''"
proof -
  have h: "valid_datetime noon \<and> valid_datetime (noon\<lparr>second := 1\<rparr>) \<and>
      wall_clock_second noon \<noteq> wall_clock_second (noon\<lparr>second := 1\<rparr>)"
    by (simp add: valid_datetime_def wall_clock_second_def noon_def)
  have t: "TRAFFIC_SYSTEM_AVAILABLE demo_env"
    by (simp add: demo_env_def)
  have v: "train_session_id noon = ''train_20240102_120000''"
    "train_session_id (noon\<lparr>second := 1\<rparr>) = ''train_20240102_120001''"
    "train_session_id (clock demo_env (now_calls (demo_launcher []))) = ''train_20240102_030400''"
    by code_simp+
  from session_id_format [of noon noon "noon\<lparr>second := 1\<rparr>" demo_env "demo_launcher []"] h t v
  show ?thesis by simp
qed

section \<open>Deployment runs leave sessions and telemetry alone\<close>

text \<open>
  Claim C10, as amended. \<^verbatim>\<open>start_deployment\<close> itself generates no session id, makes no
  call to the database (it registers no session and logs no event) and leaves
  \<^verbatim>\<open>current_session_id\<close> as it is. The state of the database object changes only by what
  the entry points of the external engine (its constructor, \<^verbatim>\<open>initialize\<close> and
  \<^verbatim>\<open>run_deployment\<close>) write: it is unchanged when they write nothing.
\<close>

theorem start_deployment_frame:
  "current_session_id (snd (start_deployment env w)) = current_session_id w \<and>
   now_calls (snd (start_deployment env w)) = now_calls w \<and>
   filter store_action (trace (snd (start_deployment env w))) = filter store_action (trace w) \<and>
   ((\<forall>c k d. opaque_writes env c k d = d) \<longrightarrow>
      database (snd (start_deployment env w)) = database w)"
proof (intro conjI impI)
  have "keeps w (snd (start_deployment env w))"
    using keeps_start_deployment [of env] by (simp add: steps_def)
  then show "current_session_id (snd (start_deployment env w)) = current_session_id w"
    and "now_calls (snd (start_deployment env w)) = now_calls w"
    by (simp_all add: keeps_def)
next
  have "steps (adds (\<lambda>a. \<not> store_action a)) (start_deployment env)"
    by (rule adds_start_deployment) simp_all
  then have "adds (\<lambda>a. \<not> store_action a) w (snd (start_deployment env w))"
    by (simp add: steps_def)
  then obtain tr where "trace (snd (start_deployment env w)) = trace w @ tr"
    and "list_all (\<lambda>a. \<not> store_action a) tr"
    by (auto simp: adds_def)
  then show "filter store_action (trace (snd (start_deployment env w))) = filter store_action (trace w)"
    by (simp add: list_all_iff)
next
  assume "\<forall>c k d. opaque_writes env c k d = d"
  then have "steps same_database (start_deployment env)"
    by (intro same_database_start_deployment) simp
  then show "database (snd (start_deployment env w)) = database w"
    by (simp add: steps_def same_database_def)
qed

theorem start_deployment_frame_witness:
  "(\<forall>c k d. opaque_writes demo_env c k d = d) \<and>
   current_session_id (trained_launcher [Inr []]) = Some ''train_20240102_030400'' \<and>
   current_session_id (snd (start_deployment demo_env (trained_launcher [Inr []]))) =
     Some ''train_20240102_030400'' \<and>
   database (snd (start_deployment demo_env (trained_launcher [Inr []]))) =
     database (trained_launcher [Inr []]) \<and>
   added (trained_launcher [Inr []]) (snd (start_deployment demo_env (trained_launcher [Inr []]))) =
     [Print DeploymentHeader, Print DeploymentNotice, Input PressEnterPrompt,
      Opaque (Construct IntegratedTrafficSystem), Opaque (Initialize IntegratedTrafficSystem),
      Print DeploymentRunning, Print DeploymentUrlHint, Opaque RunDeployment]"
proof -
  have h: "\<forall>c k d. opaque_writes demo_env c k d = d"
    by (simp add: demo_env_def)
  have s: "current_session_id (trained_launcher [Inr []]) = Some ''train_20240102_030400''"
    by code_simp
  have a: "added (trained_launcher [Inr []]) (snd (start_deployment demo_env (trained_launcher [Inr []]))) =
     [Print DeploymentHeader, Print DeploymentNotice, Input PressEnterPrompt,
      Opaque (Construct IntegratedTrafficSystem), Opaque (Initialize IntegratedTrafficSystem),
      Print DeploymentRunning, Print DeploymentUrlHint, Opaque RunDeployment]"
    by code_simp
  from start_deployment_frame [of demo_env "trained_launcher [Inr []]"] h s a
  show ?thesis by simp
qed

text \<open>
  An engine whose \<^verbatim>\<open>run_deployment\<close> writes an event to the store: the launcher makes no
  call to the database during the deployment run, yet the event log has grown by the
  engine's event and the database is not in the state it had before the run.
\<close>

theorem deployment_engine_writes:
  "filter store_action
     (added (trained_launcher [Inr []])
        (snd (start_deployment logging_engine_env (trained_launcher [Inr []])))) = [] \<and>
   map_option (map message \<circ> events) (database (trained_launcher [Inr []])) =
     Some [session_started_prefix @ ''train_20240102_030400''] \<and>
   map_option (map message \<circ> events)
     (database (snd (start_deployment logging_engine_env (trained_launcher [Inr []])))) =
     Some [session_started_prefix @ ''train_20240102_030400'', ''deployment running''] \<and>
   database (snd (start_deployment logging_engine_env (trained_launcher [Inr []]))) \<noteq>
     database (trained_launcher [Inr []])"
  by code_simp

section \<open>The interrupt handler stops the current session\<close>

text \<open>
  Claim C2. Over the telemetry store: when the interrupt handler runs while the database
  object is present and \<^verbatim>\<open>current_session_id\<close> names a running session of the store, it
  calls \<^verbatim>\<open>end_training_session\<close> for that id with the result \<^verbatim>\<open>{"status": "stopped"}\<close>,
  then \<^verbatim>\<open>close\<close>, and raises \<^verbatim>\<open>SystemExit(0)\<close>, which ends the process. In the store it
  leaves, the session is stopped, with the end time stamped and the result stored, and
  the store is closed. When the interrupt arrives inside the guarded part of
  \<^verbatim>\<open>start_training\<close>, \<^verbatim>\<open>SystemExit\<close> passes the handler for \<^verbatim>\<open>Exception\<close> and the final
  block closes the session once more, with \<open>completed\<close>, before the process exits: that
  call returns and changes no session, so the session stays stopped.
\<close>

theorem signal_handler_stops_session:
  assumes "db env = store_api"
    and "database w = Some d" and "current_session_id w = Some sid" and "sid \<noteq> []"
    and "get_session sid d = Some ses" and "status ses = Running"
  shows "fst (signal_handler env w) = Inl (SystemExit 0) \<and>
     added w (snd (signal_handler env w)) =
       [Print InterruptReceived, Print ShuttingDown,
        DbEndSession sid [(''status'', ''stopped'')], DbClose, Print ShutdownComplete] \<and>
     map_option (get_session sid) (database (snd (signal_handler env w))) =
       Some (Some (ses\<lparr>status := Stopped, end_time := Some (ticks d),
                        result_payload := Some [(''status'', ''stopped'')]\<rparr>)) \<and>
     map_option is_closed (database (snd (signal_handler env w))) = Some True \<and>
     fst (try_finally (try_except (signal_handler env) is_Exception (training_failed env))
            (close_session env) w) = Inl (SystemExit 0) \<and>
     map_option sessions
       (database (snd (try_finally (try_except (signal_handler env) is_Exception (training_failed env))
                         (close_session env) w))) =
       map_option sessions (database (snd (signal_handler env w)))"
proof -
  let ?r = "[(''status'', ''stopped'')]"
  let ?ses = "ses\<lparr>status := Stopped, end_time := Some (ticks d), result_payload := Some ?r\<rparr>"
  let ?d1 = "d\<lparr>sessions := AList.update sid ?ses (sessions d), ticks := Suc (ticks d)\<rparr>"
  let ?d2 = "?d1\<lparr>is_closed := True\<rparr>"
  let ?w1 = "w\<lparr>database := Some ?d2,
        trace := trace w @ [Print InterruptReceived, Print ShuttingDown,
                            DbEndSession sid ?r, DbClose, Print ShutdownComplete]\<rparr>"
  have "status_of_result ?r = Some Stopped"
    by (simp add: status_of_result_def)
  with assms(5,6) have "end_session sid ?r d = (Inr (), ?d1)"
    by (rule end_session_running)
  with assms(1) have stop: "end_training_session (db env) sid ?r d = (Inr (), ?d1)"
    by (simp add: end_training_session_store surface_Inr)
  have close: "close (db env) ?d1 = (Inr (), ?d2)"
    using assms(1) by (simp add: store_api_def)
  note run = signal_handler_exits [OF assms(2,3,4) stop close]
  have stopped: "get_session sid ?d2 = Some ?ses"
    by (simp add: get_session_def update_conv')
  then have "not_running sid ?d2"
    by (simp add: not_running_def)
  then have again: "end_training_session (db env) sid [(''status'', ''completed'')] ?d2 =
      (Inr (), log_record ''WARNING'' ''database'' ''end_session ignored'' (Some sid) ?d2)"
    using assms(1) by (simp add: end_training_session_store end_session_not_running surface_Inr)
  have body: "try_except (signal_handler env) is_Exception (training_failed env) w =
      (Inl (SystemExit 0), ?w1)"
    by (simp add: try_except_def run)
  have fin: "fst (close_session env ?w1) = Inr () \<and>
      map_option sessions (database (snd (close_session env ?w1))) = Some (sessions ?d2)"
    using assms(3,4) again
    by (simp add: close_session_def end_current_session_def db_call_def ret_def log_record_def)
  have whole: "fst (try_finally (try_except (signal_handler env) is_Exception (training_failed env))
            (close_session env) w) = Inl (SystemExit 0) \<and>
     map_option sessions
       (database (snd (try_finally (try_except (signal_handler env) is_Exception (training_failed env))
                         (close_session env) w))) = Some (sessions ?d2)"
    using fin by (cases "close_session env ?w1") (auto simp: try_finally_def body)
  show ?thesis
    using whole stopped by (simp add: run added_def)
qed

theorem signal_handler_stops_session_witness:
  "db demo_env = store_api \<and>
   current_session_id running_launcher = Some ''train_20240102_030400'' \<and>
   session_states running_launcher = [(''train_20240102_030400'', Running, None, None)] \<and>
   fst (signal_handler demo_env running_launcher) = Inl (SystemExit 0) \<and>
   added running_launcher (snd (signal_handler demo_env running_launcher)) =
     [Print InterruptReceived, Print ShuttingDown,
      DbEndSession ''train_20240102_030400'' [(''status'', ''stopped'')], DbClose,
      Print ShutdownComplete] \<and>
   session_states (snd (signal_handler demo_env running_launcher)) =
     [(''train_20240102_030400'', Stopped, Some 2, Some [(''status'', ''stopped'')])] \<and>
   map_option is_closed (database (snd (signal_handler demo_env running_launcher))) = Some True \<and>
   fst (try_finally (try_except (signal_handler demo_env) is_Exception (training_failed demo_env))
          (close_session demo_env) running_launcher) = Inl (SystemExit 0) \<and>
   session_states
     (snd (try_finally (try_except (signal_handler demo_env) is_Exception (training_failed demo_env))
             (close_session demo_env) running_launcher)) =
     [(''train_20240102_030400'', Stopped, Some 2, Some [(''status'', ''stopped'')])]"
proof -
  let ?sid = "''train_20240102_030400''"
  let ?d = "the (database running_launcher)"
  let ?ses = "the (get_session ?sid ?d)"
  have 1: "db demo_env = store_api" by (simp add: demo_env_def)
  have 2: "database running_launcher = Some ?d" by code_simp
  have 3: "current_session_id running_launcher = Some ?sid" by code_simp
  have 4: "?sid \<noteq> []" by simp
  have "get_session ?sid ?d \<noteq> None" by code_simp
  then have 5: "get_session ?sid ?d = Some ?ses" by simp
  have 6: "status ?ses = Running" by code_simp
  have 7: "session_states running_launcher = [(?sid, Running, None, None)]" by code_simp
  have 8: "session_states (snd (signal_handler demo_env running_launcher)) =
     [(?sid, Stopped, Some 2, Some [(''status'', ''stopped'')])]" by code_simp
  have 9: "session_states
     (snd (try_finally (try_except (signal_handler demo_env) is_Exception (training_failed demo_env))
             (close_session demo_env) running_launcher)) =
     [(?sid, Stopped, Some 2, Some [(''status'', ''stopped'')])]" by code_simp
  from signal_handler_stops_session [OF 1 2 3 4 5 6]
  have 10: "fst (signal_handler demo_env running_launcher) = Inl (SystemExit 0)"
    "added running_launcher (snd (signal_handler demo_env running_launcher)) =
     [Print InterruptReceived, Print ShuttingDown,
      DbEndSession ?sid [(''status'', ''stopped'')], DbClose, Print ShutdownComplete]"
    "map_option is_closed (database (snd (signal_handler demo_env running_launcher))) = Some True"
    "fst (try_finally (try_except (signal_handler demo_env) is_Exception (training_failed demo_env))
          (close_session demo_env) running_launcher) = Inl (SystemExit 0)"
    by blast+
  show ?thesis
    by (intro conjI 1 3 7 8 9 10)
qed

section \<open>The launcher closes sessions as completed or stopped\<close>

text \<open>
  Claim C9. In every run of the launcher from its start, through any number of menu
  rounds, each result payload passed to \<^verbatim>\<open>end_training_session\<close> is
  \<^verbatim>\<open>{"status": "completed"}\<close> or \<^verbatim>\<open>{"status": "stopped"}\<close>, never \<open>failed\<close>. The close of
  \<^verbatim>\<open>start_training\<close> is the one of the final block: it is made once, with \<open>completed\<close>,
  whatever the training run did, also when it raised; \<^verbatim>\<open>shutdown\<close> closes with \<open>stopped\<close>.
\<close>

theorem launcher_end_statuses:
  "set (end_payloads (trace (snd (main n env c d ins)))) \<subseteq>
     {[(''status'', ''completed'')], [(''status'', ''stopped'')]} \<and>
   (DATABASE_AVAILABLE env \<and> database w \<noteq> None \<and> current_session_id w = Some sid \<and> sid \<noteq> [] \<longrightarrow>
      end_payloads (added w (snd (guarded_run env sid w))) = [[(''status'', ''completed'')]]) \<and>
   (database w \<noteq> None \<and> current_session_id w = Some sid \<and> sid \<noteq> [] \<longrightarrow>
      end_payloads (added w (snd (shutdown env w))) = [[(''status'', ''stopped'')]])"
proof (intro conjI impI)
  let ?w0 = "init_launcher env c d ins"
  have "adds launcher_payload ?w0 (snd (show_main_menu n env ?w0))"
    by (rule adds_show_main_menu) simp_all
  then have "set (end_payloads (trace (snd (show_main_menu n env ?w0)))) \<subseteq>
     set (end_payloads (trace ?w0)) \<union> {[(''status'', ''completed'')], [(''status'', ''stopped'')]}"
    by (rule end_payloads_adds)
  then show "set (end_payloads (trace (snd (main n env c d ins)))) \<subseteq>
     {[(''status'', ''completed'')], [(''status'', ''stopped'')]}"
    by (simp add: main_def init_launcher_def end_payloads_def)
next
  assume "DATABASE_AVAILABLE env \<and> database w \<noteq> None \<and> current_session_id w = Some sid \<and> sid \<noteq> []"
  then obtain tr where "added w (snd (guarded_run env sid w)) = tr @ [DbEndSession sid [(''status'', ''completed'')]]"
    and "list_all (\<lambda>a. end_payload a = None) tr"
    using guarded_run_closes [of env w sid sid] by blast
  then show "end_payloads (added w (snd (guarded_run env sid w))) = [[(''status'', ''completed'')]]"
    by (simp add: end_payloads_def map_filter_append map_filter_none)
next
  assume "database w \<noteq> None \<and> current_session_id w = Some sid \<and> sid \<noteq> []"
  then show "end_payloads (added w (snd (shutdown env w))) = [[(''status'', ''stopped'')]]"
    by (simp add: shutdown_stops)
qed

theorem launcher_end_statuses_witness:
  "DATABASE_AVAILABLE (raising_env RunTraining (Exception ''RuntimeError'' ''no simulator'')) \<and>
   database running_launcher \<noteq> None \<and>
   current_session_id running_launcher = Some ''train_20240102_030400'' \<and>
   fst (training_body (raising_env RunTraining (Exception ''RuntimeError'' ''no simulator''))
          ''train_20240102_030400'' running_launcher) =
     Inl (Exception ''RuntimeError'' ''no simulator'') \<and>
   end_payloads (added running_launcher
      (snd (guarded_run (raising_env RunTraining (Exception ''RuntimeError'' ''no simulator''))
              ''train_20240102_030400'' running_launcher))) =
     [[(''status'', ''completed'')]] \<and>
   end_payloads (added running_launcher (snd (shutdown demo_env running_launcher))) =
     [[(''status'', ''stopped'')]] \<and>
   end_payloads (trace (snd (main 5 (raising_env RunTraining (Exception ''RuntimeError'' ''no simulator''))
      demo_config empty_store [Inr ''1'', Inr ''0'']))) =
     [[(''status'', ''completed'')], [(''status'', ''stopped'')]]"
proof -
  let ?env = "raising_env RunTraining (Exception ''RuntimeError'' ''no simulator'')"
  let ?sid = "''train_20240102_030400''"
  have 1: "DATABASE_AVAILABLE ?env" by code_simp
  have 2: "database running_launcher \<noteq> None" by code_simp
  have 3: "current_session_id running_launcher = Some ?sid" by code_simp
  have 4: "?sid \<noteq> []" by simp
  have 5: "fst (training_body ?env ?sid running_launcher) = Inl (Exception ''RuntimeError'' ''no simulator'')"
    by code_simp
  have 6: "end_payloads (trace (snd (main 5 ?env demo_config empty_store [Inr ''1'', Inr ''0'']))) =
     [[(''status'', ''completed'')], [(''status'', ''stopped'')]]"
    by code_simp
  from launcher_end_statuses [where env = ?env and w = running_launcher and sid = ?sid] 1 2 3 4
  have 7: "end_payloads (added running_launcher (snd (guarded_run ?env ?sid running_launcher))) =
     [[(''status'', ''completed'')]]"
    by blast
  from launcher_end_statuses [where env = demo_env and w = running_launcher and sid = ?sid] 2 3 4
  have 8: "end_payloads (added running_launcher (snd (shutdown demo_env running_launcher))) =
     [[(''status'', ''stopped'')]]"
    by blast
  from 1 2 3 5 6 7 8 show ?thesis by simp
qed

section \<open>The menu loop survives the errors of its operations\<close>

text \<open>
  Claim C4, as amended. When a menu round (the prompt or the operation chosen) raises an
  exception derived from \<^verbatim>\<open>Exception\<close>, the launcher prints the diagnostic with the
  exception's text and goes on with the next round of the menu loop: the exception
  neither ends the loop nor leaves \<^verbatim>\<open>show_main_menu\<close>.
\<close>

theorem menu_survives_exception:
  "menu_choice env (emit (Print MenuBanner) w) = (Inl e, w') \<and> is_Exception e \<longrightarrow>
     menu_round env w = (Continue, emit (Print (OperationError (str_exn e))) w') \<and>
     show_main_menu (Suc n) env w =
       show_main_menu n env (emit (Print (OperationError (str_exn e))) w')"
proof (intro impI, elim conjE)
  assume "menu_choice env (emit (Print MenuBanner) w) = (Inl e, w')" and "is_Exception e"
  then have "menu_round env w = (Continue, emit (Print (OperationError (str_exn e))) w')"
    by (cases e) (simp_all add: menu_round_def)
  then show "menu_round env w = (Continue, emit (Print (OperationError (str_exn e))) w') \<and>
     show_main_menu (Suc n) env w =
       show_main_menu n env (emit (Print (OperationError (str_exn e))) w')"
    by simp
qed

text \<open>
  The performance analysis fails with an ordinary exception: the round prints the
  diagnostic, and the next round reads the next choice.
\<close>

theorem menu_survives_exception_witness:
  "fst (menu_choice (raising_env PerformanceAnalysis (Exception ''KeyError'' ''best_score''))
          (emit (Print MenuBanner) (demo_launcher [Inr ''3'', Inr ''0'']))) =
     Inl (Exception ''KeyError'' ''best_score'') \<and>
   is_Exception (Exception ''KeyError'' ''best_score'') \<and>
   fst (menu_round (raising_env PerformanceAnalysis (Exception ''KeyError'' ''best_score''))
          (demo_launcher [Inr ''3'', Inr ''0''])) = Continue \<and>
   last (trace (snd (menu_round (raising_env PerformanceAnalysis (Exception ''KeyError'' ''best_score''))
          (demo_launcher [Inr ''3'', Inr ''0''])))) = Print (OperationError ''best_score'') \<and>
   fst (main 2 (raising_env PerformanceAnalysis (Exception ''KeyError'' ''best_score'')) demo_config empty_store
          [Inr ''3'', Inr ''0'']) = Returned"
proof -
  let ?e = "Exception ''KeyError'' ''best_score''"
  let ?env = "raising_env PerformanceAnalysis ?e"
  let ?w = "demo_launcher [Inr ''3'', Inr ''0'']"
  let ?w' = "snd (menu_choice ?env (emit (Print MenuBanner) ?w))"
  have 1: "fst (menu_choice ?env (emit (Print MenuBanner) ?w)) = Inl ?e" by code_simp
  then have 2: "menu_choice ?env (emit (Print MenuBanner) ?w) = (Inl ?e, ?w')"
    by (intro prod_eqI) simp_all
  have 3: "is_Exception ?e" by simp
  from menu_survives_exception [where env = ?env and w = ?w and e = ?e and w' = ?w' and n = 1] 2 3
  have 4: "menu_round ?env ?w = (Continue, emit (Print (OperationError (str_exn ?e))) ?w')"
    by blast
  have 5: "fst (main 2 ?env demo_config empty_store [Inr ''3'', Inr ''0'']) = Returned"
    by code_simp
  from 1 3 5 show ?thesis
    unfolding 4 by simp
qed

text \<open>
  An engine that ends with \<^verbatim>\<open>sys.exit(1)\<close>: \<^verbatim>\<open>SystemExit\<close> is no keyboard interrupt and is
  not derived from \<^verbatim>\<open>Exception\<close>, no diagnostic is printed, and the exception leaves the
  loop and \<^verbatim>\<open>show_main_menu\<close> although the input still holds a choice.
\<close>

theorem menu_left_by_system_exit:
  "\<not> is_KeyboardInterrupt (SystemExit 1) \<and>
   fst (menu_choice (raising_env RunTraining (SystemExit 1))
          (emit (Print MenuBanner) (demo_launcher [Inr ''1'', Inr ''7'']))) = Inl (SystemExit 1) \<and>
   fst (menu_round (raising_env RunTraining (SystemExit 1)) (demo_launcher [Inr ''1'', Inr ''7''])) =
     Propagate (SystemExit 1) \<and>
   fst (main 5 (raising_env RunTraining (SystemExit 1)) demo_config empty_store [Inr ''1'', Inr ''7'']) =
     Raised (SystemExit 1) \<and>
   stdin (snd (main 5 (raising_env RunTraining (SystemExit 1)) demo_config empty_store [Inr ''1'', Inr ''7''])) =
     [Inr ''7''] \<and>
   last (trace (snd (main 5 (raising_env RunTraining (SystemExit 1)) demo_config empty_store [Inr ''1'', Inr ''7'']))) =
     DbEndSession ''train_20240102_030400'' [(''status'', ''completed'')]"
  by code_simp

section \<open>A failed training run is logged before the session is closed\<close>

text \<open>
  Claim C8, as amended. If the training engine raises an exception derived from
  \<^verbatim>\<open>Exception\<close> inside the guarded part of \<^verbatim>\<open>start_training\<close>, then, the database being
  available, the launcher calls \<^verbatim>\<open>log_event\<close> with level \<open>ERROR\<close>, source \<open>launcher\<close> and
  a message ending in the exception's text, and after that closes the current session;
  nothing else follows the failure.
\<close>

theorem training_failure_logged:
  "DATABASE_AVAILABLE env \<and> database w \<noteq> None \<and> current_session_id w = Some sid \<and> sid \<noteq> [] \<and>
   training_body env sid w = (Inl e, w1) \<and> is_Exception e \<longrightarrow>
     added w1 (snd (guarded_run env sid w)) =
       [Print (TrainingStartFailed (str_exn e)),
        DbLogEvent ''ERROR'' ''launcher'' (training_failed_prefix @ str_exn e),
        DbEndSession sid [(''status'', ''completed'')]]"
proof (intro impI, elim conjE)
  assume avail: "DATABASE_AVAILABLE env" and db: "database w \<noteq> None"
    and sid: "current_session_id w = Some sid" "sid \<noteq> []"
    and body: "training_body env sid w = (Inl e, w1)" and e: "is_Exception e"
  have "keeps w w1"
    using keeps_training_body body by (rule stepsD)
  with db sid have w1: "database w1 \<noteq> None" "current_session_id w1 = Some sid"
    by (simp_all add: keeps_def)
  let ?w2 = "snd (training_failed env e w1)"
  from training_failed_run [OF avail w1(1), of e]
  have k: "keeps w1 ?w2"
    and t2: "trace ?w2 = trace w1 @ [Print (TrainingStartFailed (str_exn e)),
       DbLogEvent ''ERROR'' ''launcher'' (training_failed_prefix @ str_exn e)]"
    by simp_all
  from k w1 have w2: "database ?w2 \<noteq> None" "current_session_id ?w2 = Some sid"
    by (simp_all add: keeps_def)
  have "snd (guarded_run env sid w) = snd (close_session env ?w2)"
    using body e by (simp add: guarded_run_def snd_try_finally snd_try_except_caught)
  then have "trace (snd (guarded_run env sid w)) =
     trace w1 @ [Print (TrainingStartFailed (str_exn e)),
       DbLogEvent ''ERROR'' ''launcher'' (training_failed_prefix @ str_exn e),
       DbEndSession sid [(''status'', ''completed'')]]"
    using trace_close_session [OF avail w2 sid(2)] t2 by simp
  then show "added w1 (snd (guarded_run env sid w)) =
       [Print (TrainingStartFailed (str_exn e)),
        DbLogEvent ''ERROR'' ''launcher'' (training_failed_prefix @ str_exn e),
        DbEndSession sid [(''status'', ''completed'')]]"
    by (rule added_append)
qed

theorem training_failure_logged_witness:
  "DATABASE_AVAILABLE (raising_env RunTraining (Exception ''RuntimeError'' ''no simulator'')) \<and>
   database running_launcher \<noteq> None \<and>
   current_session_id running_launcher = Some ''train_20240102_030400'' \<and>
   fst (training_body (raising_env RunTraining (Exception ''RuntimeError'' ''no simulator''))
          ''train_20240102_030400'' running_launcher) =
     Inl (Exception ''RuntimeError'' ''no simulator'') \<and>
   is_Exception (Exception ''RuntimeError'' ''no simulator'') \<and>
   added running_launcher
     (snd (guarded_run (raising_env RunTraining (Exception ''RuntimeError'' ''no simulator''))
             ''train_20240102_030400'' running_launcher)) =
     [Opaque (Construct IntegratedTrafficSystem), Opaque (Initialize IntegratedTrafficSystem),
      Print (TrainingSessionId ''train_20240102_030400''), Opaque RunTraining,
      Print (TrainingStartFailed ''no simulator''),
      DbLogEvent ''ERROR'' ''launcher'' (training_failed_prefix @ ''no simulator''),
      DbEndSession ''train_20240102_030400'' [(''status'', ''completed'')]]"
proof -
  let ?e = "Exception ''RuntimeError'' ''no simulator''"
  let ?env = "raising_env RunTraining ?e"
  let ?sid = "''train_20240102_030400''"
  let ?w1 = "snd (training_body ?env ?sid running_launcher)"
  have 1: "DATABASE_AVAILABLE ?env" by code_simp
  have 2: "database running_launcher \<noteq> None" by code_simp
  have 3: "current_session_id running_launcher = Some ?sid" by code_simp
  have 4: "?sid \<noteq> []" by simp
  have 5: "fst (training_body ?env ?sid running_launcher) = Inl ?e" by code_simp
  then have 6: "training_body ?env ?sid running_launcher = (Inl ?e, ?w1)"
    by (intro prod_eqI) simp_all
  have 7: "is_Exception ?e" by simp
  have 8: "added running_launcher ?w1 =
     [Opaque (Construct IntegratedTrafficSystem), Opaque (Initialize IntegratedTrafficSystem),
      Print (TrainingSessionId ?sid), Opaque RunTraining]"
    by code_simp
  have 9: "length (trace running_launcher) \<le> length (trace ?w1)" by code_simp
  from training_failure_logged [where env = ?env and w = running_launcher and sid = ?sid
      and e = ?e and ?w1.0 = ?w1] 1 2 3 4 6 7
  have 10: "added ?w1 (snd (guarded_run ?env ?sid running_launcher)) =
       [Print (TrainingStartFailed (str_exn ?e)),
        DbLogEvent ''ERROR'' ''launcher'' (training_failed_prefix @ str_exn ?e),
        DbEndSession ?sid [(''status'', ''completed'')]]"
    by blast
  have 11: "added running_launcher (snd (guarded_run ?env ?sid running_launcher)) =
     [Opaque (Construct IntegratedTrafficSystem), Opaque (Initialize IntegratedTrafficSystem),
      Print (TrainingSessionId ''train_20240102_030400''), Opaque RunTraining,
      Print (TrainingStartFailed ''no simulator''),
      DbLogEvent ''ERROR'' ''launcher'' (training_failed_prefix @ ''no simulator''),
      DbEndSession ''train_20240102_030400'' [(''status'', ''completed'')]]"
    by code_simp
  from 1 2 3 5 7 11 show ?thesis
    using 10 by simp
qed

text \<open>
  An engine that ends its run with \<^verbatim>\<open>sys.exit(1)\<close>: the training system has raised an
  exception, no \<open>ERROR\<close> event is written, and the session is closed.
\<close>

theorem system_exit_not_logged:
  "fst (training_body (raising_env RunTraining (SystemExit 1)) ''train_20240102_030400''
          running_launcher) = Inl (SystemExit 1) \<and>
   database running_launcher \<noteq> None \<and>
   added running_launcher
     (snd (guarded_run (raising_env RunTraining (SystemExit 1)) ''train_20240102_030400''
             running_launcher)) =
     [Opaque (Construct IntegratedTrafficSystem), Opaque (Initialize IntegratedTrafficSystem),
      Print (TrainingSessionId ''train_20240102_030400''), Opaque RunTraining,
      DbEndSession ''train_20240102_030400'' [(''status'', ''completed'')]] \<and>
   added (demo_launcher [])
     (snd (start_training (raising_env RunTraining (SystemExit 1)) (demo_launcher []))) =
     [Print TrainingHeader, GenerateSessionId ''train_20240102_030400'', GetConfig,
      Print UsingConfigFile,
      DbStartSession ''train_20240102_030400'' (config_dict_of demo_config),
      DbLogEvent ''INFO'' ''launcher'' (session_started_prefix @ ''train_20240102_030400''),
      Opaque (Construct IntegratedTrafficSystem), Opaque (Initialize IntegratedTrafficSystem),
      Print (TrainingSessionId ''train_20240102_030400''), Opaque RunTraining,
      DbEndSession ''train_20240102_030400'' [(''status'', ''completed'')]]"
  by code_simp

section \<open>The configuration snapshot of a session\<close>

text \<open>
  Claim C5. With the traffic system and the database available, \<^verbatim>\<open>start_training\<close>
  registers one session, under the id it generated; its snapshot is the flat mapping of
  the five values \<open>target_efficiency\<close>, \<open>target_mobility\<close>, \<open>max_episodes\<close>,
  \<open>learning_rate\<close> and \<open>num_vehicles\<close> as the configuration object holds them, whatever
  they are, and the empty mapping when the configuration provider is unavailable.
\<close>

theorem session_snapshot:
  "TRAFFIC_SYSTEM_AVAILABLE env \<and> DATABASE_AVAILABLE env \<and> database w \<noteq> None \<and>
   (CONFIG_AVAILABLE env \<longrightarrow> config_manager w = Some c) \<longrightarrow>
     registrations (added w (snd (start_training env w))) =
       [(train_session_id (clock env (now_calls w)),
         if CONFIG_AVAILABLE env
         then [(''target_efficiency'', target_efficiency (training c)),
               (''target_mobility'', target_mobility (training c)),
               (''max_episodes'', max_episodes (training c)),
               (''learning_rate'', learning_rate (agent c)),
               (''num_vehicles'', num_vehicles (environment c))]
         else [])]"
proof (intro impI, elim conjE)
  assume traffic: "TRAFFIC_SYSTEM_AVAILABLE env" and avail: "DATABASE_AVAILABLE env"
    and db: "database w \<noteq> None" and cfg: "CONFIG_AVAILABLE env \<longrightarrow> config_manager w = Some c"
  let ?sid = "train_session_id (clock env (now_calls w))"
  let ?dict = "if CONFIG_AVAILABLE env then config_dict_of c else []"
  let ?w2 = "(emit (GenerateSessionId ?sid) (emit (Print TrainingHeader) w))
          \<lparr>current_session_id := Some ?sid, now_calls := Suc (now_calls w)\<rparr>"
  have t2: "trace ?w2 = trace w @ [Print TrainingHeader, GenerateSessionId ?sid]" by simp
  have db2: "database ?w2 \<noteq> None" using db by simp
  have "\<exists>config w3 pre. read_config env ?w2 = (Inr config, w3) \<and> trace w3 = trace ?w2 @ pre \<and>
      list_all (\<lambda>a. registration a = None) pre \<and> database w3 \<noteq> None \<and>
      (CONFIG_AVAILABLE env \<longrightarrow> config = Some c)"
  proof (cases rule: read_config_cases [of env ?w2])
    case (raises e)
    with cfg show ?thesis
      by (cases "CONFIG_AVAILABLE env")
        (simp_all add: read_config_def get_config_def seq_def py_print_def ret_def)
  next
    case absent
    with db2 show ?thesis by simp
  next
    case (present c')
    with cfg db2 show ?thesis by simp
  qed
  then obtain config w3 pre where rc: "read_config env ?w2 = (Inr config, w3)"
    and t3: "trace w3 = trace ?w2 @ pre" and pre: "list_all (\<lambda>a. registration a = None) pre"
    and db3: "database w3 \<noteq> None" and config: "CONFIG_AVAILABLE env \<longrightarrow> config = Some c"
    by blast
  have run: "start_training env w =
      seq (register_session env ?sid config) (\<lambda>_. guarded_run env ?sid) w3"
    using rc by (simp add: start_training_unfold [OF traffic] seq_def)
  have "\<exists>post. trace (snd (start_training env w)) = trace w3 @ DbStartSession ?sid ?dict # post \<and>
      list_all (\<lambda>a. registration a = None) post"
  proof -
    from register_session_trace [OF avail db3 refl config, of ?sid]
    obtain r w' where reg: "register_session env ?sid config w3 = (r, w')"
      and tr': "trace w' = trace w3 @ [DbStartSession ?sid ?dict] \<and> (\<exists>e. r = Inl e) \<or>
        trace w' = trace w3 @ [DbStartSession ?sid ?dict,
          DbLogEvent ''INFO'' ''launcher'' (session_started_prefix @ ?sid)]"
      by blast
    obtain tr where tr: "trace (snd (guarded_run env ?sid w')) = trace w' @ tr"
      "list_all (\<lambda>a. registration a = None) tr"
      by (rule added_guarded_run [of "\<lambda>a. registration a = None" env ?sid w']) simp_all
    show ?thesis
    proof (cases r)
      case (Inl e)
      with reg tr' show ?thesis by (auto simp: run seq_def)
    next
      case (Inr u)
      with reg tr' tr show ?thesis by (auto simp: run seq_def)
    qed
  qed
  then obtain post where "trace (snd (start_training env w)) = trace w3 @ DbStartSession ?sid ?dict # post"
    and post: "list_all (\<lambda>a. registration a = None) post"
    by blast
  with t3 t2 have "added w (snd (start_training env w)) =
      [Print TrainingHeader, GenerateSessionId ?sid] @ pre @ DbStartSession ?sid ?dict # post"
    by (intro added_append) simp
  with pre post have "registrations (added w (snd (start_training env w))) = [(?sid, ?dict)]"
    by (simp add: registrations_def map_filter_append map_filter_none)
  then show "registrations (added w (snd (start_training env w))) =
       [(?sid,
         if CONFIG_AVAILABLE env
         then [(''target_efficiency'', target_efficiency (training c)),
               (''target_mobility'', target_mobility (training c)),
               (''max_episodes'', max_episodes (training c)),
               (''learning_rate'', learning_rate (agent c)),
               (''num_vehicles'', num_vehicles (environment c))]
         else [])]"
    by (simp add: config_dict_of_def)
qed

theorem session_snapshot_witness:
  "TRAFFIC_SYSTEM_AVAILABLE demo_env \<and> DATABASE_AVAILABLE demo_env \<and> CONFIG_AVAILABLE demo_env \<and>
   database odd_launcher \<noteq> None \<and> config_manager odd_launcher = Some odd_config \<and>
   registrations (added odd_launcher (snd (start_training demo_env odd_launcher))) =
     [(''train_20240102_030400'',
       [(''target_efficiency'', - 1), (''target_mobility'', 1000), (''max_episodes'', 0),
        (''learning_rate'', - 3), (''num_vehicles'', - 20)])] \<and>
   TRAFFIC_SYSTEM_AVAILABLE no_config_env \<and> DATABASE_AVAILABLE no_config_env \<and>
   \<not> CONFIG_AVAILABLE no_config_env \<and> database no_config_launcher \<noteq> None \<and>
   registrations (added no_config_launcher (snd (start_training no_config_env no_config_launcher))) =
     [(''train_20240102_030400'', [])]"
proof -
  have 1: "TRAFFIC_SYSTEM_AVAILABLE demo_env" "DATABASE_AVAILABLE demo_env" "CONFIG_AVAILABLE demo_env"
    "database odd_launcher \<noteq> None" "config_manager odd_launcher = Some odd_config"
    by code_simp+
  have 2: "TRAFFIC_SYSTEM_AVAILABLE no_config_env" "DATABASE_AVAILABLE no_config_env"
    "\<not> CONFIG_AVAILABLE no_config_env" "database no_config_launcher \<noteq> None"
    by code_simp+
  have 3: "train_session_id (clock demo_env (now_calls odd_launcher)) = ''train_20240102_030400''"
    "train_session_id (clock no_config_env (now_calls no_config_launcher)) = ''train_20240102_030400''"
    by code_simp+
  from session_snapshot [where env = demo_env and w = odd_launcher and c = odd_config] 1
  have 4: "registrations (added odd_launcher (snd (start_training demo_env odd_launcher))) =
     [(''train_20240102_030400'',
       [(''target_efficiency'', - 1), (''target_mobility'', 1000), (''max_episodes'', 0),
        (''learning_rate'', - 3), (''num_vehicles'', - 20)])]"
    by (simp add: 3 odd_config_def)
  from session_snapshot [where env = no_config_env and w = no_config_launcher and c = odd_config] 2
  have 5: "registrations (added no_config_launcher (snd (start_training no_config_env no_config_launcher))) =
     [(''train_20240102_030400'', [])]"
    by (simp add: 3)
  from 1 2 4 5 show ?thesis by simp
qed

section \<open>The order of the steps of a training start\<close>

text \<open>
  Claim C3, as amended. With the traffic system available, \<^verbatim>\<open>start_training\<close> always
  generates a session id first; of the four further steps (capture the configuration,
  register the session, write the \<open>INFO\<close> event, delegate to the engine's blocking run)
  it takes those that its guards allow, each at most once and in this order. It takes
  all five when the configuration provider and the database are available, the two
  database calls return, and the traffic module has an engine class whose constructor
  returns and whose \<^verbatim>\<open>initialize()\<close> returns true.
\<close>

theorem training_start_order:
  "(TRAFFIC_SYSTEM_AVAILABLE env \<longrightarrow>
      (\<exists>rest. steps_taken (added w (snd (start_training env w))) = GenerateId # rest \<and>
         subseq rest [CaptureConfig, RegisterSession, LogInfoEvent, DelegateRun])) \<and>
   (TRAFFIC_SYSTEM_AVAILABLE env \<and> CONFIG_AVAILABLE env \<and> DATABASE_AVAILABLE env \<and>
    config_manager w = Some c \<and> database w = Some d \<and>
    start_training_session (db env) (train_session_id (clock env (now_calls w)))
      (config_dict_of c) d = (Inr (), d1) \<and>
    log_event (db env) ''INFO'' ''launcher''
      (session_started_prefix @ train_session_id (clock env (now_calls w))) d1 = (Inr (), d2) \<and>
    (has_IntegratedTrafficSystem env \<or> has_AutoSmartTrafficSystem env) \<and>
    (\<forall>k n x. \<exists>b. opaque_result env (Construct k) n x = Inr b) \<and>
    (\<forall>k n x. opaque_result env (Initialize k) n x = Inr True) \<longrightarrow>
      steps_taken (added w (snd (start_training env w))) =
        [GenerateId, CaptureConfig, RegisterSession, LogInfoEvent, DelegateRun])"
proof (intro conjI impI)
  assume traffic: "TRAFFIC_SYSTEM_AVAILABLE env"
  let ?sid = "train_session_id (clock env (now_calls w))"
  let ?w2 = "(emit (GenerateSessionId ?sid) (emit (Print TrainingHeader) w))
          \<lparr>current_session_id := Some ?sid, now_calls := Suc (now_calls w)\<rparr>"
  let ?rest = "seq (read_config env) (\<lambda>config.
        seq (register_session env ?sid config) (\<lambda>_. guarded_run env ?sid))"
  have "emits (\<lambda>l. subseq l [CaptureConfig, RegisterSession, LogInfoEvent, DelegateRun]) ?w2 (snd (?rest ?w2))"
    using emits_start_training_rest [of env ?sid] by (simp add: steps_def)
  then obtain tr where tr: "trace (snd (?rest ?w2)) = trace ?w2 @ tr"
    "subseq (steps_taken tr) [CaptureConfig, RegisterSession, LogInfoEvent, DelegateRun]"
    by (auto simp: emits_def)
  have "trace (snd (start_training env w)) = trace w @ [Print TrainingHeader, GenerateSessionId ?sid] @ tr"
    using tr(1) by (simp add: start_training_unfold [OF traffic])
  then have "added w (snd (start_training env w)) = [Print TrainingHeader, GenerateSessionId ?sid] @ tr"
    by (rule added_append)
  then have "steps_taken (added w (snd (start_training env w))) = GenerateId # steps_taken tr"
    by (simp add: steps_taken_def)
  with tr(2) show "\<exists>rest. steps_taken (added w (snd (start_training env w))) = GenerateId # rest \<and>
         subseq rest [CaptureConfig, RegisterSession, LogInfoEvent, DelegateRun]"
    by blast
next
  assume all: "TRAFFIC_SYSTEM_AVAILABLE env \<and> CONFIG_AVAILABLE env \<and> DATABASE_AVAILABLE env \<and>
    config_manager w = Some c \<and> database w = Some d \<and>
    start_training_session (db env) (train_session_id (clock env (now_calls w)))
      (config_dict_of c) d = (Inr (), d1) \<and>
    log_event (db env) ''INFO'' ''launcher''
      (session_started_prefix @ train_session_id (clock env (now_calls w))) d1 = (Inr (), d2) \<and>
    (has_IntegratedTrafficSystem env \<or> has_AutoSmartTrafficSystem env) \<and>
    (\<forall>k n x. \<exists>b. opaque_result env (Construct k) n x = Inr b) \<and>
    (\<forall>k n x. opaque_result env (Initialize k) n x = Inr True)"
  let ?sid = "train_session_id (clock env (now_calls w))"
  let ?w2 = "(emit (GenerateSessionId ?sid) (emit (Print TrainingHeader) w))
          \<lparr>current_session_id := Some ?sid, now_calls := Suc (now_calls w)\<rparr>"
  let ?w3 = "emit (Print UsingConfigFile) (emit GetConfig ?w2)"
  let ?w4 = "(emit (DbLogEvent ''INFO'' ''launcher'' (session_started_prefix @ ?sid))
                ((emit (DbStartSession ?sid (config_dict_of c)) ?w3)\<lparr>database := Some d1\<rparr>))
               \<lparr>database := Some d2\<rparr>"
  from all have traffic: "TRAFFIC_SYSTEM_AVAILABLE env" by blast
  have rc: "read_config env ?w2 = (Inr (Some c), ?w3)"
    using all by (simp add: read_config_def get_config_def seq_def py_print_def ret_def)
  have reg: "register_session env ?sid (Some c) ?w3 = (Inr (), ?w4)"
    using all
    by (simp add: register_session_def build_config_dict_def seq_ret
        seq_db_call [where d = d and d' = d1] db_call_def)
  have run: "start_training env w = guarded_run env ?sid ?w4"
    using rc reg by (simp add: start_training_unfold [OF traffic] seq_def)
  from all obtain tr where tr: "trace (snd (training_body env ?sid ?w4)) = trace ?w4 @ tr"
    "steps_taken tr = [DelegateRun]"
    using training_body_runs [of env ?sid ?w4] by blast
  from guarded_run_after_body [of env ?sid ?w4]
  obtain q where q: "trace (snd (guarded_run env ?sid ?w4)) = trace (snd (training_body env ?sid ?w4)) @ q"
    "steps_taken q = []"
    by (auto simp: emits_def subseq_Nil_iff)
  have "trace (snd (start_training env w)) =
      trace w @ [Print TrainingHeader, GenerateSessionId ?sid, GetConfig, Print UsingConfigFile,
        DbStartSession ?sid (config_dict_of c),
        DbLogEvent ''INFO'' ''launcher'' (session_started_prefix @ ?sid)] @ tr @ q"
    using tr(1) q(1) by (simp add: run)
  then have "added w (snd (start_training env w)) =
      [Print TrainingHeader, GenerateSessionId ?sid, GetConfig, Print UsingConfigFile,
        DbStartSession ?sid (config_dict_of c),
        DbLogEvent ''INFO'' ''launcher'' (session_started_prefix @ ?sid)] @ tr @ q"
    by (rule added_append)
  moreover have "steps_taken [Print TrainingHeader, GenerateSessionId ?sid, GetConfig, Print UsingConfigFile,
        DbStartSession ?sid (config_dict_of c),
        DbLogEvent ''INFO'' ''launcher'' (session_started_prefix @ ?sid)] =
      [GenerateId, CaptureConfig, RegisterSession, LogInfoEvent]"
    by (simp add: steps_taken_def)
  ultimately show "steps_taken (added w (snd (start_training env w))) =
        [GenerateId, CaptureConfig, RegisterSession, LogInfoEvent, DelegateRun]"
    using tr(2) q(2) by (simp only: steps_taken_append) simp
qed

theorem training_start_order_witness:
  "TRAFFIC_SYSTEM_AVAILABLE demo_env \<and> CONFIG_AVAILABLE demo_env \<and> DATABASE_AVAILABLE demo_env \<and>
   config_manager (demo_launcher []) = Some demo_config \<and>
   database (demo_launcher []) = Some empty_store \<and>
   fst (start_training_session (db demo_env) ''train_20240102_030400''
          (config_dict_of demo_config) empty_store) = Inr () \<and>
   has_IntegratedTrafficSystem demo_env \<and>
   (\<forall>k n x. opaque_result demo_env (Initialize k) n x = Inr True) \<and>
   steps_taken (added (demo_launcher []) (snd (start_training demo_env (demo_launcher [])))) =
     [GenerateId, CaptureConfig, RegisterSession, LogInfoEvent, DelegateRun]"
proof -
  let ?sid = "train_session_id (clock demo_env (now_calls (demo_launcher [])))"
  let ?d1 = "snd (start_training_session (db demo_env) ?sid (config_dict_of demo_config) empty_store)"
  let ?d2 = "snd (log_event (db demo_env) ''INFO'' ''launcher'' (session_started_prefix @ ?sid) ?d1)"
  have sid: "?sid = ''train_20240102_030400''" by code_simp
  have 1: "TRAFFIC_SYSTEM_AVAILABLE demo_env" "CONFIG_AVAILABLE demo_env" "DATABASE_AVAILABLE demo_env"
    "has_IntegratedTrafficSystem demo_env"
    by (simp_all add: demo_env_def)
  have 2: "config_manager (demo_launcher []) = Some demo_config"
    "database (demo_launcher []) = Some empty_store"
    by (simp_all add: demo_launcher_def init_launcher_def demo_env_def)
  have "fst (start_training_session (db demo_env) ?sid (config_dict_of demo_config) empty_store) = Inr ()"
    by code_simp
  then have 3: "start_training_session (db demo_env) ?sid (config_dict_of demo_config) empty_store =
      (Inr (), ?d1)"
    by (intro prod_eqI) simp_all
  have "fst (log_event (db demo_env) ''INFO'' ''launcher'' (session_started_prefix @ ?sid) ?d1) = Inr ()"
    by (simp add: demo_env_def store_api_def)
  then have 4: "log_event (db demo_env) ''INFO'' ''launcher'' (session_started_prefix @ ?sid) ?d1 =
      (Inr (), ?d2)"
    by (intro prod_eqI) simp_all
  have 5: "\<forall>k n x. \<exists>b. opaque_result demo_env (Construct k) n x = Inr b"
    "\<forall>k n x. opaque_result demo_env (Initialize k) n x = Inr True"
    by (auto simp: demo_env_def)
  from training_start_order [where env = demo_env and w = "demo_launcher []" and c = demo_config
      and d = empty_store and ?d1.0 = ?d1 and ?d2.0 = ?d2] 1 2 3 4 5
  have 6: "steps_taken (added (demo_launcher []) (snd (start_training demo_env (demo_launcher [])))) =
     [GenerateId, CaptureConfig, RegisterSession, LogInfoEvent, DelegateRun]"
    by blast
  have 7: "fst (start_training_session (db demo_env) ''train_20240102_030400''
          (config_dict_of demo_config) empty_store) = Inr ()"
    by code_simp
  show ?thesis
    by (intro conjI 1 2 5 6 7)
qed

text \<open>
  Without the database module the traffic system is still available: the launcher
  delegates to the engine's run, having registered no session and written no event.
\<close>

theorem training_start_without_database:
  "TRAFFIC_SYSTEM_AVAILABLE no_database_env \<and>
   steps_taken (added no_database_launcher (snd (start_training no_database_env no_database_launcher))) =
     [GenerateId, CaptureConfig, DelegateRun] \<and>
   added no_database_launcher (snd (start_training no_database_env no_database_launcher)) =
     [Print TrainingHeader, GenerateSessionId ''train_20240102_030400'', GetConfig,
      Print UsingConfigFile, Opaque (Construct IntegratedTrafficSystem),
      Opaque (Initialize IntegratedTrafficSystem),
      Print (TrainingSessionId ''train_20240102_030400''), Opaque RunTraining]"
  by code_simp

section \<open>Closing a session twice\<close>

text \<open>
  Claim C1. On the telemetry store, a second \<open>end_session\<close> for the same id is a no-op on
  the sessions whatever its result says, once the first one carried one of the three
  statuses: it reports no error and leaves every session record (state, end time, result
  payload, totals) as the first call left it. For the launcher over this store: when
  \<^verbatim>\<open>start_training\<close> has returned, its final block has closed the current session with
  \<open>completed\<close>; a later \<^verbatim>\<open>shutdown\<close> calls \<^verbatim>\<open>end_training_session\<close> again for the same id
  with \<open>stopped\<close>, closes the store and returns, and the session records are unchanged.
\<close>

theorem double_close_is_noop:
  "(status_of_result r1 \<noteq> None \<longrightarrow>
      fst (end_session sid r2 (snd (end_session sid r1 s))) = Inr () \<and>
      sessions (snd (end_session sid r2 (snd (end_session sid r1 s)))) =
        sessions (snd (end_session sid r1 s))) \<and>
   (db env = store_api \<and> TRAFFIC_SYSTEM_AVAILABLE env \<and> DATABASE_AVAILABLE env \<and>
    start_training env w = (Inr (), w1) \<longrightarrow>
      fst (shutdown env w1) = Inr () \<and>
      map_option sessions (database (snd (shutdown env w1))) = map_option sessions (database w1) \<and>
      last (trace w1) =
        DbEndSession (train_session_id (clock env (now_calls w))) [(''status'', ''completed'')] \<and>
      added w1 (snd (shutdown env w1)) =
        [Print ShuttingDown,
         DbEndSession (train_session_id (clock env (now_calls w))) [(''status'', ''stopped'')],
         DbClose, Print ShutdownComplete])"
proof (intro conjI impI)
  assume "status_of_result r1 \<noteq> None"
  then have "not_running sid (snd (end_session sid r1 s))"
    by (rule not_running_end_session)
  then have "end_session sid r2 (snd (end_session sid r1 s)) =
      (Inr (), log_record ''WARNING'' ''database'' ''end_session ignored'' (Some sid)
         (snd (end_session sid r1 s)))"
    by (rule end_session_not_running)
  then show "fst (end_session sid r2 (snd (end_session sid r1 s))) = Inr ()"
    and "sessions (snd (end_session sid r2 (snd (end_session sid r1 s)))) =
        sessions (snd (end_session sid r1 s))"
    by simp_all
next
  assume run: "db env = store_api \<and> TRAFFIC_SYSTEM_AVAILABLE env \<and> DATABASE_AVAILABLE env \<and>
    start_training env w = (Inr (), w1)"
  let ?sid = "train_session_id (clock env (now_calls w))"
  from run obtain w' d d1 where sid: "current_session_id w' = Some ?sid"
    and "database w' = Some d"
    and first: "end_training_session (db env) ?sid [(''status'', ''completed'')] d = (Inr (), d1)"
    and w1: "w1 = (emit (DbEndSession ?sid [(''status'', ''completed'')]) w')\<lparr>database := Some d1\<rparr>"
    by (elim conjE training_returns [of env w w1]) blast+
  from run first have "surface (end_session ?sid [(''status'', ''completed'')] d) = (Inr (), d1)"
    by (simp add: end_training_session_store)
  then have d1: "d1 = snd (end_session ?sid [(''status'', ''completed'')] d)"
    by (cases "end_session ?sid [(''status'', ''completed'')] d")
      (auto simp: surface_def split: sum.splits)
  have "status_of_result [(''status'', ''completed'')] \<noteq> None"
    by (simp add: status_of_result_def)
  then have "not_running ?sid d1"
    unfolding d1 by (rule not_running_end_session)
  then have second: "end_training_session (db env) ?sid [(''status'', ''stopped'')] d1 =
      (Inr (), log_record ''WARNING'' ''database'' ''end_session ignored'' (Some ?sid) d1)"
    using run by (simp add: end_training_session_store end_session_not_running surface_Inr)
  let ?d2 = "log_record ''WARNING'' ''database'' ''end_session ignored'' (Some ?sid) d1"
  have close: "close (db env) ?d2 = (Inr (), ?d2\<lparr>is_closed := True\<rparr>)"
    using run by (simp add: store_api_def)
  have db1: "database w1 = Some d1" and cur: "current_session_id w1 = Some ?sid"
    using w1 sid by simp_all
  note down = shutdown_returns [OF db1 cur train_session_id_not_empty second close]
  show "fst (shutdown env w1) = Inr ()"
    by (simp add: down)
  show "map_option sessions (database (snd (shutdown env w1))) = map_option sessions (database w1)"
    by (simp add: down db1)
  show "last (trace w1) = DbEndSession ?sid [(''status'', ''completed'')]"
    by (simp add: w1)
  show "added w1 (snd (shutdown env w1)) =
        [Print ShuttingDown, DbEndSession ?sid [(''status'', ''stopped'')], DbClose,
         Print ShutdownComplete]"
    by (simp add: down added_def)
qed

theorem double_close_is_noop_witness:
  "status_of_result [(''status'', ''completed'')] \<noteq> None \<and>
   db demo_env = store_api \<and> TRAFFIC_SYSTEM_AVAILABLE demo_env \<and> DATABASE_AVAILABLE demo_env \<and>
   start_training demo_env (demo_launcher []) = (Inr (), trained_launcher []) \<and>
   session_states (trained_launcher []) =
     [(''train_20240102_030400'', Completed, Some 2, Some [(''status'', ''completed'')])] \<and>
   fst (shutdown demo_env (trained_launcher [])) = Inr () \<and>
   added (trained_launcher []) (snd (shutdown demo_env (trained_launcher []))) =
     [Print ShuttingDown, DbEndSession ''train_20240102_030400'' [(''status'', ''stopped'')],
      DbClose, Print ShutdownComplete] \<and>
   session_states (snd (shutdown demo_env (trained_launcher []))) =
     [(''train_20240102_030400'', Completed, Some 2, Some [(''status'', ''completed'')])] \<and>
   map_option sessions (database (snd (shutdown demo_env (trained_launcher [])))) =
     map_option sessions (database (trained_launcher []))"
proof -
  have 1: "status_of_result [(''status'', ''completed'')] \<noteq> None"
    by (simp add: status_of_result_def)
  have 2: "db demo_env = store_api" "TRAFFIC_SYSTEM_AVAILABLE demo_env" "DATABASE_AVAILABLE demo_env"
    by (simp_all add: demo_env_def)
  have "fst (start_training demo_env (demo_launcher [])) = Inr ()" by code_simp
  then have 3: "start_training demo_env (demo_launcher []) = (Inr (), trained_launcher [])"
    by (intro prod_eqI) (simp_all add: trained_launcher_def)
  have 4: "train_session_id (clock demo_env (now_calls (demo_launcher []))) = ''train_20240102_030400''"
    by code_simp
  have 5: "session_states (trained_launcher []) =
     [(''train_20240102_030400'', Completed, Some 2, Some [(''status'', ''completed'')])]"
    by code_simp
  have 6: "session_states (snd (shutdown demo_env (trained_launcher []))) =
     [(''train_20240102_030400'', Completed, Some 2, Some [(''status'', ''completed'')])]"
    by code_simp
  from double_close_is_noop [where env = demo_env and w = "demo_launcher []"
      and ?w1.0 = "trained_launcher []" and ?r1.0 = "[(''status'', ''completed'')]"] 2 3
  have 7: "fst (shutdown demo_env (trained_launcher [])) = Inr ()"
    "map_option sessions (database (snd (shutdown demo_env (trained_launcher [])))) =
       map_option sessions (database (trained_launcher []))"
    "added (trained_launcher []) (snd (shutdown demo_env (trained_launcher []))) =
        [Print ShuttingDown, DbEndSession ''train_20240102_030400'' [(''status'', ''stopped'')],
         DbClose, Print ShutdownComplete]"
    unfolding 4 by blast+
  show ?thesis
    by (intro conjI 1 2 3 5 6 7)
qed


section \<open>A failed export\<close>

text \<open>
  Claim C7. On the telemetry store, the export of an unknown session, or to a destination
  that cannot be written, returns a failure (\<open>NotFoundError\<close> for the unknown session)
  and leaves the store, so also its files, as they were; the database method reports it
  as a false result and raises nothing. In the launcher's export menu a false result of
  \<^verbatim>\<open>export_data\<close> prints no confirmation of an export path, and the menu option returns
  without an exception.
\<close>

theorem failed_export:
  "(get_session sid s = None \<or> dest \<in> set (read_only s) \<longrightarrow>
      (\<exists>e. export sid dest s = (Failure e, s)) \<and>
      export_data store_api sid dest s = (Inr False, s)) \<and>
   (get_session sid s = None \<longrightarrow> export sid dest s = (Failure NotFoundError, s)) \<and>
   (stdin w = Inr choice # rest \<and> py_int env choice = Some n \<and> 1 \<le> n \<and> n \<le> int (length rows) \<and>
    database w = Some d \<and>
    export_data (db env) (session_id (rows ! nat (n - 1)))
      (export_path_of (session_id (rows ! nat (n - 1)))) d = (Inr False, d') \<longrightarrow>
      try_except (export_selected env rows) is_ValueError_or_IndexError (\<lambda>e. py_print InvalidInput) w =
        (Inr (),
         w\<lparr>database := Some d', stdin := rest,
           trace := trace w @ [Input SessionNumberPrompt,
             DbExport (session_id (rows ! nat (n - 1)))
               (export_path_of (session_id (rows ! nat (n - 1))))]\<rparr>))"
proof (intro conjI impI)
  assume "get_session sid s = None \<or> dest \<in> set (read_only s)"
  then show "\<exists>e. export sid dest s = (Failure e, s)"
    by (auto simp: export_def split: option.splits)
  then show "export_data store_api sid dest s = (Inr False, s)"
    by (auto simp: store_api_def)
next
  assume "get_session sid s = None"
  then show "export sid dest s = (Failure NotFoundError, s)"
    by (simp add: export_def)
next
  assume a: "stdin w = Inr choice # rest \<and> py_int env choice = Some n \<and> 1 \<le> n \<and> n \<le> int (length rows) \<and>
    database w = Some d \<and>
    export_data (db env) (session_id (rows ! nat (n - 1)))
      (export_path_of (session_id (rows ! nat (n - 1)))) d = (Inr False, d')"
  let ?sid = "session_id (rows ! nat (n - 1))"
  let ?path = "export_path_of ?sid"
  let ?w0 = "(emit (Input SessionNumberPrompt) w)\<lparr>stdin := rest\<rparr>"
  from a have db0: "database ?w0 = Some d"
    and failed: "export_data (db env) ?sid ?path d = (Inr False, d')"
    by simp_all
  from a have "export_selected env rows w =
      seq (db_call (DbExport ?sid ?path) (export_data (db env) ?sid ?path))
        (\<lambda>ok. if ok then py_print (ExportedTo ?path) else ret ()) ?w0"
    by (simp add: export_selected_def seq_py_input Let_def)
  also have "\<dots> = (Inr (), (emit (DbExport ?sid ?path) ?w0)\<lparr>database := Some d'\<rparr>)"
    by (simp add: seq_db_call [where m = "export_data (db env) ?sid ?path" and w = ?w0, OF db0 failed]
        ret_def)
  finally show "try_except (export_selected env rows) is_ValueError_or_IndexError (\<lambda>e. py_print InvalidInput) w =
        (Inr (),
         w\<lparr>database := Some d', stdin := rest,
           trace := trace w @ [Input SessionNumberPrompt, DbExport ?sid ?path]\<rparr>)"
    by (simp add: try_except_def emit_def)
qed

text \<open>
  The scenario of the specification on the empty store, and the export menu over a store
  whose destination cannot be written, next to the same menu where it can.
\<close>

theorem failed_export_witness:
  "get_session ''unknown_id'' empty_store = None \<and>
   export ''unknown_id'' ''/tmp/out.json'' empty_store = (Failure NotFoundError, empty_store) \<and>
   export_data store_api ''unknown_id'' ''/tmp/out.json'' empty_store = (Inr False, empty_store) \<and>
   files (snd (export ''unknown_id'' ''/tmp/out.json'' empty_store)) = [] \<and>
   stdin read_only_archive = [Inr ''1''] \<and> py_int demo_env ''1'' = Some 1 \<and>
   fst (try_except (export_selected demo_env [\<lparr>session_id = ''train_20240102_030400''\<rparr>])
          is_ValueError_or_IndexError (\<lambda>e. py_print InvalidInput) read_only_archive) =
     Inr () \<and>
   fst (export_option demo_env read_only_archive) = Inr () \<and>
   trace (snd (export_option demo_env read_only_archive)) =
     [DbGetSessions 10, Print ExportableHeader, Print (ExportableItem 1 ''train_20240102_030400''),
      Input SessionNumberPrompt,
      DbExport ''train_20240102_030400'' ''export_train_20240102_030400.json''] \<and>
   exported_files (snd (export_option demo_env read_only_archive)) = [] \<and>
   trace (snd (export_option demo_env writable_archive)) =
     [DbGetSessions 10, Print ExportableHeader, Print (ExportableItem 1 ''train_20240102_030400''),
      Input SessionNumberPrompt,
      DbExport ''train_20240102_030400'' ''export_train_20240102_030400.json'',
      Print (ExportedTo ''export_train_20240102_030400.json'')] \<and>
   exported_files (snd (export_option demo_env writable_archive)) =
     [''export_train_20240102_030400.json'']"
proof -
  let ?w = read_only_archive
  let ?rows = "[\<lparr>session_id = ''train_20240102_030400''\<rparr>]"
  let ?d = "archive_store [''export_train_20240102_030400.json'']"
  note inst = failed_export [where sid = "''unknown_id''" and s = empty_store
      and dest = "''/tmp/out.json''" and w = ?w and env = demo_env and choice = "''1''"
      and rest = "[]" and n = 1 and rows = ?rows and d = ?d and d' = ?d]
  have 1: "get_session ''unknown_id'' empty_store = None"
    by (simp add: get_session_def empty_store_def)
  from inst 1
  have 2: "export ''unknown_id'' ''/tmp/out.json'' empty_store = (Failure NotFoundError, empty_store)"
    "export_data store_api ''unknown_id'' ''/tmp/out.json'' empty_store = (Inr False, empty_store)"
    by blast+
  have 3: "files (snd (export ''unknown_id'' ''/tmp/out.json'' empty_store)) = []"
    unfolding 2 by (simp add: empty_store_def)
  have 4: "stdin ?w = [Inr ''1'']" "py_int demo_env ''1'' = Some 1"
    by code_simp+
  have 5: "database ?w = Some ?d" by code_simp
  have 6: "export_data (db demo_env) (session_id (?rows ! nat (1 - 1)))
      (export_path_of (session_id (?rows ! nat (1 - 1)))) ?d = (Inr False, ?d)"
    by code_simp
  from inst 4 5 6
  have "try_except (export_selected demo_env ?rows) is_ValueError_or_IndexError
      (\<lambda>e. py_print InvalidInput) ?w =
        (Inr (),
         ?w\<lparr>database := Some ?d, stdin := [],
           trace := trace ?w @ [Input SessionNumberPrompt,
             DbExport (session_id (?rows ! nat (1 - 1)))
               (export_path_of (session_id (?rows ! nat (1 - 1))))]\<rparr>)"
    by simp
  then have 7: "fst (try_except (export_selected demo_env ?rows) is_ValueError_or_IndexError
      (\<lambda>e. py_print InvalidInput) ?w) = Inr ()"
    by simp
  have 8: "fst (export_option demo_env ?w) = Inr ()"
    "trace (snd (export_option demo_env ?w)) =
     [DbGetSessions 10, Print ExportableHeader, Print (ExportableItem 1 ''train_20240102_030400''),
      Input SessionNumberPrompt,
      DbExport ''train_20240102_030400'' ''export_train_20240102_030400.json'']"
    "exported_files (snd (export_option demo_env ?w)) = []"
    by code_simp+
  have 9: "trace (snd (export_option demo_env writable_archive)) =
     [DbGetSessions 10, Print ExportableHeader, Print (ExportableItem 1 ''train_20240102_030400''),
      Input SessionNumberPrompt,
      DbExport ''train_20240102_030400'' ''export_train_20240102_030400.json'',
      Print (ExportedTo ''export_train_20240102_030400.json'')]"
    "exported_files (snd (export_option demo_env writable_archive)) =
     [''export_train_20240102_030400.json'']"
    by code_simp+
  show ?thesis
    by (intro conjI 1 2 3 4 7 8 9)
qed

end
